theory Spec2Isabelle
  imports Main
begin

section \<open>JavaScript values used by the simulation\<close>

text \<open>
  Fuel and altitude of an airplane are integers (the initial fuel is
  \<^verbatim>\<open>Math.floor(Math.random() * 900) + 100\<close> and every update subtracts 1).
  The scans of \<^verbatim>\<open>Simulation.tick\<close> seed their running minimum and maximum with
  object literals whose fuel is \<^verbatim>\<open>Infinity\<close> or \<^verbatim>\<open>-Infinity\<close>, and a missing
  property read in arithmetic gives \<^verbatim>\<open>NaN\<close>; \<open>jsnum\<close> holds these numbers with
  JavaScript's comparisons.
\<close>

datatype jsnum = NaN | NegInfinity | Fin int | PosInfinity

fun js_lt :: "jsnum \<Rightarrow> jsnum \<Rightarrow> bool" where
  "js_lt NaN b = False"
| "js_lt a NaN = False"
| "js_lt NegInfinity NegInfinity = False"
| "js_lt NegInfinity b = True"
| "js_lt (Fin a) (Fin b) = (a < b)"
| "js_lt (Fin a) PosInfinity = True"
| "js_lt (Fin a) NegInfinity = False"
| "js_lt PosInfinity b = False"

fun js_ge :: "jsnum \<Rightarrow> jsnum \<Rightarrow> bool" where
  "js_ge NaN b = False"
| "js_ge a NaN = False"
| "js_ge a b = (\<not> js_lt a b)"

fun js_add :: "jsnum \<Rightarrow> jsnum \<Rightarrow> jsnum" where
  "js_add NaN b = NaN"
| "js_add a NaN = NaN"
| "js_add (Fin a) (Fin b) = Fin (a + b)"
| "js_add NegInfinity PosInfinity = NaN"
| "js_add PosInfinity NegInfinity = NaN"
| "js_add (Fin a) b = b"
| "js_add a b = a"

text \<open>
  Arguments of a constructor call. A JavaScript call binds the arguments to the
  parameters by position; a parameter without an argument is \<^verbatim>\<open>undefined\<close> and an
  argument without a parameter is dropped.
\<close>

datatype jsval = Undefined | Boolean bool | Number int

fun truthy :: "jsval \<Rightarrow> bool" where
  "truthy Undefined = False"
| "truthy (Boolean b) = b"
| "truthy (Number n) = (n \<noteq> 0)"

definition arg :: "jsval list \<Rightarrow> nat \<Rightarrow> jsval" where
  "arg args k = (if k < length args then args ! k else Undefined)"

section \<open>class Airplane (the same text in both source files)\<close>

record airplane =
  planeNumber :: nat
  fuel :: int
  fuelRate :: int
  crashed :: bool
  altitude :: int
  landing :: bool
  landed :: bool

text \<open>
  The constructor. Its second argument is the value of
  \<^verbatim>\<open>Math.floor(Math.random() * 900)\<close> at this call.
\<close>

definition Airplane :: "nat \<Rightarrow> nat \<Rightarrow> airplane" where
  "Airplane number r =
     \<lparr>planeNumber = number, fuel = int r + 100, fuelRate = 1, crashed = False,
      altitude = 80, landing = False, landed = False\<rparr>"

definition handleLanding :: "airplane \<Rightarrow> airplane" where
  "handleLanding a =
     (let a1 = a\<lparr>altitude := altitude a - fuelRate a\<rparr>
      in if altitude a1 = 0 then a1\<lparr>landing := False, landed := True\<rparr> else a1)"

definition handleCrash :: "airplane \<Rightarrow> airplane" where
  "handleCrash a = (if fuel a \<le> 0 then a\<lparr>crashed := True\<rparr> else a)"

definition Airplane_tick :: "airplane \<Rightarrow> airplane" where
  "Airplane_tick a =
     (if \<not> crashed a then
        (let a1 = a\<lparr>fuel := fuel a - fuelRate a\<rparr>
         in if landing a1 then handleLanding a1 else handleCrash a1)
      else a)"

section \<open>References to objects\<close>

text \<open>
  The scans keep references: to an object literal (\<^verbatim>\<open>{}\<close>, \<^verbatim>\<open>{ fuel: Infinity }\<close>,
  \<^verbatim>\<open>{ fuel: -Infinity }\<close>), or to an airplane of \<^verbatim>\<open>this.airplanes\<close>. Airplanes are
  only ever appended to that array, so a reference to one is its index. A literal has no
  \<^verbatim>\<open>planeNumber\<close> and no \<^verbatim>\<open>altitude\<close>; writing its \<^verbatim>\<open>landing\<close> property changes no
  airplane.
\<close>

datatype objref = Literal "jsnum option" | Elem nat

fun fuelOf :: "airplane list \<Rightarrow> objref \<Rightarrow> jsnum" where
  "fuelOf as (Literal None) = NaN"
| "fuelOf as (Literal (Some v)) = v"
| "fuelOf as (Elem i) = Fin (fuel (as ! i))"

fun altitudeOf :: "airplane list \<Rightarrow> objref \<Rightarrow> jsnum" where
  "altitudeOf as (Literal v) = NaN"
| "altitudeOf as (Elem i) = Fin (altitude (as ! i))"

fun hasPlaneNumber :: "airplane list \<Rightarrow> objref \<Rightarrow> bool" where
  "hasPlaneNumber as (Literal v) = False"
| "hasPlaneNumber as (Elem i) = (planeNumber (as ! i) \<noteq> 0)"

fun setLanding :: "objref \<Rightarrow> bool \<Rightarrow> airplane list \<Rightarrow> airplane list" where
  "setLanding (Literal v) b as = as"
| "setLanding (Elem i) b as = as[i := (as ! i)\<lparr>landing := b\<rparr>]"

section \<open>class Simulation\<close>

record simulation =
  airplanes :: "airplane list"
  frameNumber :: nat
  framerate :: nat
  runNumber :: jsval
  control :: jsval

text \<open>\<^verbatim>\<open>new Simulation(...args)\<close>, in both files.\<close>

definition Simulation :: "jsval list \<Rightarrow> simulation" where
  "Simulation args =
     \<lparr>airplanes = [], frameNumber = 0, framerate = 60,
      runNumber = arg args 0, control = arg args 1\<rparr>"

text \<open>
  The random draws of one frame: the value of \<^verbatim>\<open>Math.floor(Math.random() * 100)\<close> in
  \<^verbatim>\<open>generateAirplane\<close>, and the value of \<^verbatim>\<open>Math.floor(Math.random() * 900)\<close> that
  the Airplane constructor draws when that frame creates an airplane.
\<close>

type_synonym draw = "nat \<times> nat"

definition generateAirplane :: "draw \<Rightarrow> simulation \<Rightarrow> simulation" where
  "generateAirplane d s =
     (if fst d = 0 then
        (let nextPlaneNumber = length (airplanes s) + 1;
             newAirplane = Airplane nextPlaneNumber (snd d)
         in s\<lparr>airplanes := airplanes s @ [newAirplane]\<rparr>)
      else s)"

text \<open>\<^verbatim>\<open>array.forEach(callback)\<close>: the callback at the indices below the array's length.\<close>

definition forEach :: "(nat \<Rightarrow> airplane list \<times> 'l \<Rightarrow> airplane list \<times> 'l) \<Rightarrow>
    airplane list \<times> 'l \<Rightarrow> airplane list \<times> 'l" where
  "forEach callback st = fold callback [0..<length (fst st)] st"

subsection \<open>src/airport.js: several runways\<close>

text \<open>The local variables of \<^verbatim>\<open>tick\<close> that the forEach callback updates.\<close>

record locals =
  runways :: int
  planeLanding :: bool
  landingPlanes :: "nat list"
  lowestAirplane :: objref

definition visit :: "bool \<Rightarrow> nat \<Rightarrow> airplane list \<times> locals \<Rightarrow> airplane list \<times> locals" where
  "visit ctl i st =
     (let as = fst st; loc = snd st in
      if \<not> landed (as ! i) then
        (let as1 = as[i := Airplane_tick (as ! i)]; a = as1 ! i in
         if landing a then
           (as1, loc\<lparr>runways := (if \<not> ctl then runways loc - 1 else runways loc),
                      landingPlanes := landingPlanes loc @ [i],
                      planeLanding := True\<rparr>)
         else if js_lt (Fin (fuel a)) (fuelOf as1 (lowestAirplane loc)) \<and> fuel a \<ge> altitude a then
           (as1, loc\<lparr>lowestAirplane := Elem i\<rparr>)
         else (as1, loc))
      else (as, loc))"

definition startPlaneLanding :: "objref \<Rightarrow> simulation \<Rightarrow> simulation" where
  "startPlaneLanding lowest s =
     (if length (airplanes s) \<noteq> 0 \<and> hasPlaneNumber (airplanes s) lowest
      then s\<lparr>airplanes := setLanding lowest True (airplanes s)\<rparr>
      else s)"

text \<open>The for loop of \<^verbatim>\<open>prioritizeLandingOtherPlane\<close>.\<close>

fun mostFueled :: "airplane list \<Rightarrow> nat list \<Rightarrow> objref \<Rightarrow> objref" where
  "mostFueled as [] mostFueledPlane = mostFueledPlane"
| "mostFueled as (p # ps) mostFueledPlane =
     mostFueled as ps
       (if js_lt (Fin (fuel (as ! p))) (fuelOf as mostFueledPlane) then Elem p
        else mostFueledPlane)"

definition prioritizeLandingOtherPlane :: "objref \<Rightarrow> nat list \<Rightarrow> simulation \<Rightarrow> simulation" where
  "prioritizeLandingOtherPlane lowest landingPs s =
     (let as = airplanes s;
          mostFueledPlane = mostFueled as landingPs (Literal (Some NegInfinity))
      in if js_lt (fuelOf as lowest) (fuelOf as mostFueledPlane) \<and>
            js_ge (fuelOf as mostFueledPlane) (js_add (Fin 81) (altitudeOf as mostFueledPlane))
         then s\<lparr>airplanes := setLanding lowest True (setLanding mostFueledPlane False as)\<rparr>
         else s)"

definition scan :: "draw \<Rightarrow> simulation \<Rightarrow> airplane list \<times> locals" where
  "scan d s =
     forEach (visit (truthy (control s)))
       (airplanes (generateAirplane d s),
        \<lparr>runways = 6, planeLanding = False, landingPlanes = [],
         lowestAirplane = Literal (Some PosInfinity)\<rparr>)"

definition Simulation_tick :: "draw \<Rightarrow> simulation \<Rightarrow> simulation" where
  "Simulation_tick d s0 =
     (let s = s0\<lparr>frameNumber := frameNumber s0 + 1\<rparr>;
          st = scan d s;
          s1 = s\<lparr>airplanes := fst st\<rparr>;
          loc = snd st
      in if truthy (control s1) then
           (if \<not> planeLanding loc then startPlaneLanding (lowestAirplane loc) s1 else s1)
         else if runways loc \<noteq> 0 then startPlaneLanding (lowestAirplane loc) s1
         else prioritizeLandingOtherPlane (lowestAirplane loc) (landingPlanes loc) s1)"

subsection \<open>src/unnamed/part_000: one runway\<close>

record locals_single =
  planeLanding_single :: bool
  landingPlane :: objref
  lowestAirplane_single :: objref

definition visit_single :: "nat \<Rightarrow> airplane list \<times> locals_single \<Rightarrow> airplane list \<times> locals_single" where
  "visit_single i st =
     (let as = fst st; loc = snd st;
          as1 = (if \<not> landed (as ! i) then as[i := Airplane_tick (as ! i)] else as);
          a = as1 ! i;
          loc1 = (if landing a then loc\<lparr>landingPlane := Elem i, planeLanding_single := True\<rparr>
                  else loc);
          loc2 = (if js_lt (Fin (fuel a)) (fuelOf as1 (lowestAirplane_single loc1)) \<and>
                     fuel a \<ge> 80 \<and> \<not> landed a
                  then loc1\<lparr>lowestAirplane_single := Elem i\<rparr> else loc1)
      in (as1, loc2))"

definition startPlaneLanding_single :: "bool \<Rightarrow> objref \<Rightarrow> simulation \<Rightarrow> simulation" where
  "startPlaneLanding_single isLanding lowest s =
     (if \<not> isLanding \<and> length (airplanes s) \<noteq> 0 \<and> hasPlaneNumber (airplanes s) lowest
      then s\<lparr>airplanes := setLanding lowest True (airplanes s)\<rparr>
      else s)"

definition prioritizeLandingOtherPlane_single :: "objref \<Rightarrow> objref \<Rightarrow> simulation \<Rightarrow> simulation" where
  "prioritizeLandingOtherPlane_single lowest landingP s =
     (let as = airplanes s
      in if js_lt (fuelOf as lowest) (fuelOf as landingP) \<and>
            js_ge (fuelOf as landingP) (js_add (Fin 81) (altitudeOf as landingP))
         then s\<lparr>airplanes := setLanding lowest True (setLanding landingP False as)\<rparr>
         else s)"

definition scan_single :: "draw \<Rightarrow> simulation \<Rightarrow> airplane list \<times> locals_single" where
  "scan_single d s =
     forEach visit_single
       (airplanes (generateAirplane d s),
        \<lparr>planeLanding_single = False, landingPlane = Literal None,
         lowestAirplane_single = Literal (Some PosInfinity)\<rparr>)"

definition Simulation_tick_single :: "draw \<Rightarrow> simulation \<Rightarrow> simulation" where
  "Simulation_tick_single d s0 =
     (let s = s0\<lparr>frameNumber := frameNumber s0 + 1\<rparr>;
          st = scan_single d s;
          s1 = s\<lparr>airplanes := fst st\<rparr>;
          loc = snd st;
          s2 = startPlaneLanding_single (planeLanding_single loc) (lowestAirplane_single loc) s1
      in if hasPlaneNumber (airplanes s2) (landingPlane loc) \<and> \<not> truthy (control s2)
         then prioritizeLandingOtherPlane_single (lowestAirplane_single loc) (landingPlane loc) s2
         else s2)"

subsection \<open>Runs of frames\<close>

text \<open>A trial's first frames, one \<open>draw\<close> for each.\<close>

fun frames :: "draw list \<Rightarrow> simulation \<Rightarrow> simulation" where
  "frames [] s = s"
| "frames (d # ds) s = frames ds (Simulation_tick d s)"

fun frames_single :: "draw list \<Rightarrow> simulation \<Rightarrow> simulation" where
  "frames_single [] s = s"
| "frames_single (d # ds) s = frames_single ds (Simulation_tick_single d s)"

subsection \<open>The trial: run and recordCrashes (src/airport.js)\<close>

text \<open>
  The global \<^verbatim>\<open>crashTally\<close>, passed in and returned; \<^verbatim>\<open>recordCrashes\<close> counts the
  crashed airplanes with a forEach and adds the count to the tally of the trial's group.
\<close>

record crashTally =
  controls :: nat
  tests :: nat

definition recordCrashes :: "jsval \<Rightarrow> airplane list \<Rightarrow> crashTally \<Rightarrow> crashTally" where
  "recordCrashes ctl as tally =
     (let crashedCount = fold (\<lambda>airplane n. if crashed airplane then n + 1 else n) as 0
      in if truthy ctl then tally\<lparr>controls := controls tally + crashedCount\<rparr>
         else tally\<lparr>tests := tests tally + crashedCount\<rparr>)"

text \<open>
  The while loop of \<^verbatim>\<open>run\<close>. The random source is a function of the loop's frame
  counter: \<open>rnd k\<close> holds the draws of the frame that starts with \<^verbatim>\<open>frameNumber\<close> = k.
  The loop ends because every tick adds 1 to \<^verbatim>\<open>frameNumber\<close>.
\<close>

function run_loop :: "(nat \<Rightarrow> draw) \<Rightarrow> simulation \<Rightarrow> simulation" where
  "run_loop rnd s =
     (if frameNumber s < 10000 then run_loop rnd (Simulation_tick (rnd (frameNumber s)) s) else s)"
  by pat_completeness auto
termination
proof (relation "measure (\<lambda>(rnd, s). 10000 - frameNumber s)")
  show "wf (measure (\<lambda>(rnd, s). 10000 - frameNumber s))" by simp
next
  fix rnd :: "nat \<Rightarrow> draw" and s :: simulation
  assume "frameNumber s < 10000"
  moreover have "frameNumber (Simulation_tick (rnd (frameNumber s)) s) = frameNumber s + 1"
    by (simp add: Simulation_tick_def Let_def startPlaneLanding_def prioritizeLandingOtherPlane_def)
  ultimately show "((rnd, Simulation_tick (rnd (frameNumber s)) s), (rnd, s))
      \<in> measure (\<lambda>(rnd, s). 10000 - frameNumber s)"
    by simp
qed

declare run_loop.simps [simp del]

text \<open>
  \<^verbatim>\<open>run\<close> returns the simulation and the tally after \<^verbatim>\<open>recordCrashes\<close>; printing the
  tally after the last trial is output only.
\<close>

definition run :: "(nat \<Rightarrow> draw) \<Rightarrow> simulation \<Rightarrow> crashTally \<Rightarrow> simulation \<times> crashTally" where
  "run rnd s tally =
     (let s' = run_loop rnd s in (s', recordCrashes (control s') (airplanes s') tally))"

section \<open>Notions used in the statements\<close>

text \<open>
  None of the definitions of this section is code of the repository: they name what the
  lemmas and the claims say about it.
\<close>

subsection \<open>What the forEach does to one airplane\<close>

text \<open>Both callbacks guard the call with \<^verbatim>\<open>if (!airplane.landed)\<close>.\<close>

definition advance :: "airplane \<Rightarrow> airplane" where
  "advance a = (if landed a then a else Airplane_tick a)"

text \<open>Two records that differ at most in the landing flag.\<close>

definition sameButLanding :: "airplane \<Rightarrow> airplane \<Rightarrow> bool" where
  "sameButLanding a b = (b = a\<lparr>landing := landing b\<rparr>)"

text \<open>The claims' waiting airplane: not landing, not landed, not crashed.\<close>

definition waiting :: "airplane \<Rightarrow> bool" where
  "waiting a = (\<not> landing a \<and> \<not> landed a \<and> \<not> crashed a)"

subsection \<open>A running minimum\<close>

text \<open>
  \<open>firstMin P f n i\<close>: among the indices below \<open>n\<close> that satisfy \<open>P\<close>, \<open>i\<close> has the
  least \<open>f\<close>, and is the first of those that have it. \<open>lowestIs P f n r\<close>: the reference
  \<open>r\<close> is that index, or the \<^verbatim>\<open>{ fuel: Infinity }\<close> literal when no index below \<open>n\<close>
  satisfies \<open>P\<close>.
\<close>

definition firstMin :: "(nat \<Rightarrow> bool) \<Rightarrow> (nat \<Rightarrow> int) \<Rightarrow> nat \<Rightarrow> nat \<Rightarrow> bool" where
  "firstMin P f n i = (i < n \<and> P i \<and> (\<forall>j<n. P j \<longrightarrow> f i \<le> f j \<and> (f j = f i \<longrightarrow> i \<le> j)))"

definition lowestIs :: "(nat \<Rightarrow> bool) \<Rightarrow> (nat \<Rightarrow> int) \<Rightarrow> nat \<Rightarrow> objref \<Rightarrow> bool" where
  "lowestIs P f n r = ((r = Literal (Some PosInfinity) \<and> (\<forall>j<n. \<not> P j)) \<or> (\<exists>i. r = Elem i \<and> firstMin P f n i))"

subsection \<open>The local variables after the first n airplanes: src/airport.js\<close>

text \<open>
  Over the array \<open>as\<close> the frame starts its forEach with: the airplanes the callback
  takes for \<^verbatim>\<open>lowestAirplane\<close> (\<open>cand\<close>) and those it counts as landing
  (\<open>isLanding\<close>), and what the four locals hold after the callback has run at the
  indices below \<open>n\<close> (\<open>locals_ok\<close>).
\<close>

definition cand :: "airplane list \<Rightarrow> nat \<Rightarrow> bool" where
  "cand as i = (\<not> landed (as ! i) \<and> \<not> landing (advance (as ! i)) \<and>
     altitude (advance (as ! i)) \<le> fuel (advance (as ! i)))"

definition isLanding :: "airplane list \<Rightarrow> nat \<Rightarrow> bool" where
  "isLanding as i = (\<not> landed (as ! i) \<and> landing (advance (as ! i)))"

definition locals0 :: locals where
  "locals0 = \<lparr>runways = 6, planeLanding = False, landingPlanes = [], lowestAirplane = Literal (Some PosInfinity)\<rparr>"

definition locals_ok :: "bool \<Rightarrow> airplane list \<Rightarrow> nat \<Rightarrow> locals \<Rightarrow> bool" where
  "locals_ok c as n loc =
     (lowestIs (cand as) (\<lambda>i. fuel (advance (as ! i))) n (lowestAirplane loc) \<and>
      landingPlanes loc = filter (isLanding as) [0..<n] \<and>
      planeLanding loc = (landingPlanes loc \<noteq> []) \<and>
      runways loc = 6 - (if c then 0 else int (length (landingPlanes loc))))"

text \<open>The reference \<^verbatim>\<open>tick\<close> passes to \<^verbatim>\<open>startPlaneLanding\<close>, a literal when it makes no call.\<close>

definition admitted :: "draw \<Rightarrow> simulation \<Rightarrow> objref" where
  "admitted d s = (let loc = snd (scan d s) in
     if truthy (control s) then (if \<not> planeLanding loc then lowestAirplane loc else Literal None)
     else if runways loc \<noteq> 0 then lowestAirplane loc else Literal None)"

subsection \<open>The local variables after the first n airplanes: src/unnamed/part_000\<close>

text \<open>
  \<open>cand_single\<close>: the airplanes the callback takes for \<^verbatim>\<open>lowestAirplane\<close>.
  \<open>lastLanding\<close>: \<^verbatim>\<open>landingPlane\<close> is the last airplane below \<open>n\<close> that is landing after
  its tick, or the \<^verbatim>\<open>{}\<close> literal.
\<close>

definition cand_single :: "airplane list \<Rightarrow> nat \<Rightarrow> bool" where
  "cand_single as i = (80 \<le> fuel (advance (as ! i)) \<and> \<not> landed (advance (as ! i)))"

definition lastLanding :: "airplane list \<Rightarrow> nat \<Rightarrow> objref \<Rightarrow> bool" where
  "lastLanding as n r =
     ((r = Literal None \<and> (\<forall>k<n. \<not> landing (advance (as ! k)))) \<or>
      (\<exists>k<n. r = Elem k \<and> landing (advance (as ! k)) \<and> (\<forall>j<n. k < j \<longrightarrow> \<not> landing (advance (as ! j)))))"

definition locals_single0 :: locals_single where
  "locals_single0 = \<lparr>planeLanding_single = False, landingPlane = Literal None,
         lowestAirplane_single = Literal (Some PosInfinity)\<rparr>"

definition locals_single_ok :: "airplane list \<Rightarrow> nat \<Rightarrow> locals_single \<Rightarrow> bool" where
  "locals_single_ok as n loc =
     (lowestIs (cand_single as) (\<lambda>i. fuel (advance (as ! i))) n (lowestAirplane_single loc) \<and>
      lastLanding as n (landingPlane loc) \<and>
      planeLanding_single loc = (\<exists>k<n. landing (advance (as ! k))))"

text \<open>
  The airplanes after \<^verbatim>\<open>startPlaneLanding\<close>, the test of \<^verbatim>\<open>prioritizeLandingOtherPlane\<close>,
  and an airplane halted by a frame: landing after its own tick, not landing when the
  frame ends.
\<close>

definition admit_single :: "locals_single \<Rightarrow> airplane list \<Rightarrow> airplane list" where
  "admit_single loc as =
     (if \<not> planeLanding_single loc \<and> as \<noteq> [] \<and> hasPlaneNumber as (lowestAirplane_single loc)
      then setLanding (lowestAirplane_single loc) True as else as)"

definition fires :: "airplane list \<Rightarrow> objref \<Rightarrow> objref \<Rightarrow> bool" where
  "fires as lowest landingP =
     (js_lt (fuelOf as lowest) (fuelOf as landingP) \<and>
      js_ge (fuelOf as landingP) (js_add (Fin 81) (altitudeOf as landingP)))"

definition halted_single :: "draw \<Rightarrow> simulation \<Rightarrow> nat \<Rightarrow> bool" where
  "halted_single d s i =
     (i < length (airplanes (generateAirplane d s)) \<and>
      landing (advance (airplanes (generateAirplane d s) ! i)) \<and>
      \<not> landing (airplanes (Simulation_tick_single d s) ! i))"

subsection \<open>What holds of every airplane of a trial\<close>

text \<open>
  \<open>plane_ok\<close> holds of every airplane in both files; with one runway a landed airplane
  is, in addition, never landing.
\<close>

definition plane_ok :: "airplane \<Rightarrow> bool" where
  "plane_ok a =
     (planeNumber a \<noteq> 0 \<and> fuelRate a = 1 \<and>
      (crashed a \<longrightarrow> fuel a \<le> 0 \<and> \<not> landing a \<and> \<not> landed a) \<and>
      (\<not> landed a \<longrightarrow> 1 \<le> altitude a \<and> altitude a \<le> 80) \<and>
      (landing a \<longrightarrow> altitude a \<le> fuel a) \<and>
      (landed a \<longrightarrow> altitude a = 0 \<and> 0 \<le> fuel a))"

definition plane_ok_single :: "airplane \<Rightarrow> bool" where
  "plane_ok_single a = (plane_ok a \<and> (landed a \<longrightarrow> \<not> landing a))"

definition all_ok :: "simulation \<Rightarrow> bool" where
  "all_ok s = (\<forall>a \<in> set (airplanes s). plane_ok a)"

definition all_ok_single :: "simulation \<Rightarrow> bool" where
  "all_ok_single s = (\<forall>a \<in> set (airplanes s). plane_ok_single a)"

subsection \<open>The airplanes that are landing\<close>

text \<open>
  The indices of the airplanes that are landing and have not landed, and of those whose
  landing flag is set.
\<close>

definition landingNow :: "airplane list \<Rightarrow> nat set" where
  "landingNow as = {i. i < length as \<and> landing (as ! i) \<and> \<not> landed (as ! i)}"

definition landingFlags :: "airplane list \<Rightarrow> nat set" where
  "landingFlags as = {i. i < length as \<and> landing (as ! i)}"

subsection \<open>Draws of three trials\<close>

text \<open>
  \<open>two_arrivals\<close>, 82 frames: an airplane with 100 liters on frame 1, one with 999 liters
  on frame 2. \<open>early_arrival\<close>, 70 frames: an airplane with 200 liters on frame 1.
  \<open>halted_waits\<close>, 120 frames: \<open>early_arrival\<close>, then an airplane with 100 liters on
  frame 71.
\<close>

definition two_arrivals :: "draw list" where
  "two_arrivals = (0, 0) # (0, 899) # replicate 80 (1, 0)"

definition early_arrival :: "draw list" where
  "early_arrival = (0, 100) # replicate 69 (1, 0)"

definition halted_waits :: "draw list" where
  "halted_waits = early_arrival @ (0, 0) # replicate 49 (1, 0)"

section \<open>The scans\<close>

text \<open>
  The forEach of either file leaves every airplane as \<open>advance\<close> leaves it, and its
  locals as \<open>locals_ok\<close> and \<open>locals_single_ok\<close> say, by induction on the number of
  airplanes visited. \<^verbatim>\<open>prioritizeLandingOtherPlane\<close> of src/airport.js changes nothing.
\<close>

lemma visit_fst: "fst (visit c i st) = (fst st)[i := advance (fst st ! i)]"
  by (simp add: visit_def advance_def Let_def)

lemma visit_single_fst: "fst (visit_single i st) = (fst st)[i := advance (fst st ! i)]"
  by (simp add: visit_single_def advance_def Let_def)

lemma fold_advance:
  assumes step: "\<And>i st. fst (f i st) = (fst st)[i := advance (fst st ! i)]"
  shows "n \<le> length as \<Longrightarrow> fst (fold f [0..<n] (as, loc)) = map advance (take n as) @ drop n as"
proof (induction n)
  case 0
  then show ?case by simp
next
  case (Suc n)
  then have n: "n < length as" by simp
  have "fst (fold f [0..<Suc n] (as, loc)) = (map advance (take n as) @ drop n as)[n := advance ((map advance (take n as) @ drop n as) ! n)]"
    using Suc by (simp add: step)
  also have "\<dots> = map advance (take (Suc n) as) @ drop (Suc n) as"
    using n by (simp add: take_Suc_conv_app_nth nth_append list_update_append Cons_nth_drop_Suc[symmetric])
  finally show ?case .
qed

lemma forEach_visit_fst: "fst (forEach (visit c) (as, loc)) = map advance as"
  by (simp add: forEach_def fold_advance[OF visit_fst])

lemma forEach_visit_single_fst: "fst (forEach visit_single (as, loc)) = map advance as"
  by (simp add: forEach_def fold_advance[OF visit_single_fst])

lemma lowestIs_0: "lowestIs P f 0 (Literal (Some PosInfinity))"
  by (simp add: lowestIs_def)

lemma lowestIs_skip: "lowestIs P f n r \<Longrightarrow> \<not> P n \<Longrightarrow> lowestIs P f (Suc n) r"
  by (auto simp: lowestIs_def firstMin_def less_Suc_eq)

lemma lowestIs_keep:
  "lowestIs P f n r \<Longrightarrow> P n \<Longrightarrow> r = Elem i \<Longrightarrow> \<not> f n < f i \<Longrightarrow> lowestIs P f (Suc n) r"
  by (auto simp: lowestIs_def firstMin_def less_Suc_eq)

lemma lowestIs_take_lit:
  "lowestIs P f n (Literal v) \<Longrightarrow> P n \<Longrightarrow> lowestIs P f (Suc n) (Elem n)"
  by (auto simp: lowestIs_def firstMin_def less_Suc_eq)

lemma lowestIs_take:
  "lowestIs P f n (Elem i) \<Longrightarrow> P n \<Longrightarrow> f n < f i \<Longrightarrow> lowestIs P f (Suc n) (Elem n)"
  by (fastforce simp: lowestIs_def firstMin_def less_Suc_eq)

lemma lowestIs_ref: "lowestIs P f n r \<Longrightarrow> r = Literal (Some PosInfinity) \<or> (\<exists>j<n. r = Elem j)"
  by (auto simp: lowestIs_def firstMin_def)

lemma visit_step:
  assumes f: "fst st = map advance (take n as) @ drop n as" and n: "n < length as"
    and ok: "locals_ok c as n (snd st)"
  shows "locals_ok c as (Suc n) (snd (visit c n st))"
proof -
  let ?f = "\<lambda>i. fuel (advance (as ! i))"
  have at: "fst st ! n = as ! n" using f n by (simp add: nth_append)
  have len: "length (fst st) = length as" using f n by simp
  have low: "lowestIs (cand as) ?f n (lowestAirplane (snd st))" using ok by (simp add: locals_ok_def)
  show ?thesis
  proof (cases "landed (as ! n)")
    case True
    then have "snd (visit c n st) = snd st" by (simp add: visit_def Let_def at)
    moreover have "\<not> cand as n" "\<not> isLanding as n" using True by (simp_all add: cand_def isLanding_def)
    ultimately show ?thesis using ok by (simp add: locals_ok_def lowestIs_skip)
  next
    case False
    then have adv: "Airplane_tick (as ! n) = advance (as ! n)" by (simp add: advance_def)
    show ?thesis
    proof (cases "landing (advance (as ! n))")
      case True
      then have "snd (visit c n st) = (snd st)\<lparr>runways := (if \<not> c then runways (snd st) - 1 else runways (snd st)),
                      landingPlanes := landingPlanes (snd st) @ [n], planeLanding := True\<rparr>"
        using False n len by (simp add: visit_def Let_def at adv)
      moreover have "\<not> cand as n" "isLanding as n" using True False by (simp_all add: cand_def isLanding_def)
      ultimately show ?thesis using ok by (simp add: locals_ok_def lowestIs_skip)
    next
      case nl: False
      have il: "\<not> isLanding as n" using nl by (simp add: isLanding_def)
      from lowestIs_ref[OF low] show ?thesis
      proof
        assume lit: "lowestAirplane (snd st) = Literal (Some PosInfinity)"
        show ?thesis
        proof (cases "altitude (advance (as ! n)) \<le> fuel (advance (as ! n))")
          case True
          then have "snd (visit c n st) = (snd st)\<lparr>lowestAirplane := Elem n\<rparr>"
            using False nl n len lit by (simp add: visit_def Let_def at adv)
          moreover have "cand as n" using True False nl by (simp add: cand_def)
          ultimately show ?thesis using ok il lit lowestIs_take_lit[of "cand as" ?f n "Some PosInfinity"]
            by (simp add: locals_ok_def)
        next
          case na: False
          then have "snd (visit c n st) = snd st"
            using False nl n len lit by (simp add: visit_def Let_def at adv)
          moreover have "\<not> cand as n" using na by (simp add: cand_def)
          ultimately show ?thesis using ok il by (simp add: locals_ok_def lowestIs_skip)
        qed
      next
        assume "\<exists>j<n. lowestAirplane (snd st) = Elem j"
        then obtain j where j: "j < n" "lowestAirplane (snd st) = Elem j" by blast
        have fj: "fuel ((fst st)[n := advance (as ! n)] ! j) = ?f j"
          using j n f by (simp add: nth_append)
        show ?thesis
        proof (cases "cand as n")
          case cn: True
          then have alt: "altitude (advance (as ! n)) \<le> fuel (advance (as ! n))" by (simp add: cand_def)
          show ?thesis
          proof (cases "?f n < ?f j")
            case True
            then have "snd (visit c n st) = (snd st)\<lparr>lowestAirplane := Elem n\<rparr>"
              using False nl n len j alt fj by (simp add: visit_def Let_def at adv)
            then show ?thesis using ok il j cn True lowestIs_take[of "cand as" ?f n j]
              by (simp add: locals_ok_def)
          next
            case nlt: False
            then have "snd (visit c n st) = snd st"
              using False nl n len j alt fj by (simp add: visit_def Let_def at adv)
            then show ?thesis using ok il j cn nlt lowestIs_keep[of "cand as" ?f n "Elem j" j]
              by (simp add: locals_ok_def)
          qed
        next
          case ncn: False
          then have alt: "\<not> altitude (advance (as ! n)) \<le> fuel (advance (as ! n))"
            using False nl by (simp add: cand_def)
          then have "snd (visit c n st) = snd st"
            using False nl n len j by (simp add: visit_def Let_def at adv)
          then show ?thesis using ok il ncn by (simp add: locals_ok_def lowestIs_skip)
        qed
      qed
    qed
  qed
qed

lemma fold_visit_locals:
  "n \<le> length as \<Longrightarrow> locals_ok c as n (snd (fold (visit c) [0..<n] (as, locals0)))"
proof (induction n)
  case 0
  then show ?case by (simp add: locals_ok_def locals0_def lowestIs_0)
next
  case (Suc n)
  then have "locals_ok c as (Suc n) (snd (visit c n (fold (visit c) [0..<n] (as, locals0))))"
    by (intro visit_step) (simp_all add: fold_advance[OF visit_fst])
  then show ?case by simp
qed

lemma sameButLanding_refl: "sameButLanding a a"
  by (simp add: sameButLanding_def)

lemma sameButLanding_upd: "sameButLanding a (a\<lparr>landing := v\<rparr>)"
  by (simp add: sameButLanding_def)

lemma sameButLanding_trans: "sameButLanding a b \<Longrightarrow> sameButLanding b c \<Longrightarrow> sameButLanding a c"
  by (cases a, cases b, cases c) (simp add: sameButLanding_def)

lemma sameButLanding_fields:
  "sameButLanding a b \<Longrightarrow> fuel b = fuel a \<and> altitude b = altitude a \<and> landed b = landed a \<and>
     crashed b = crashed a \<and> planeNumber b = planeNumber a \<and> fuelRate b = fuelRate a"
  by (cases a, cases b) (simp add: sameButLanding_def)

lemma length_setLanding: "length (setLanding r v as) = length as"
  by (cases r) simp_all

lemma setLanding_same: "i < length as \<Longrightarrow> sameButLanding (as ! i) (setLanding r v as ! i)"
proof (cases r)
  case (Literal v)
  then show ?thesis by (simp add: sameButLanding_refl)
next
  case (Elem k)
  assume "i < length as"
  then show ?thesis using Elem
    by (cases "k = i") (simp_all add: sameButLanding_refl sameButLanding_upd)
qed

lemma setLanding_other: "r \<noteq> Elem i \<Longrightarrow> setLanding r v as ! i = as ! i"
  by (cases r) simp_all

lemma mostFueled_literal: "mostFueled as ps (Literal (Some NegInfinity)) = Literal (Some NegInfinity)"
  by (induction ps) simp_all

lemma js_lt_NegInfinity: "\<not> js_lt x NegInfinity"
  by (cases x) simp_all

lemma prioritizeLandingOtherPlane_id: "prioritizeLandingOtherPlane lowest ps s = s"
  by (simp add: prioritizeLandingOtherPlane_def mostFueled_literal js_lt_NegInfinity)

lemma airplanes_generateAirplane:
  "airplanes (generateAirplane d s) =
     airplanes s @ (if fst d = 0 then [Airplane (length (airplanes s) + 1) (snd d)] else [])"
  by (simp add: generateAirplane_def Let_def)

lemma control_generateAirplane: "control (generateAirplane d s) = control s"
  by (simp add: generateAirplane_def Let_def)

lemma fst_scan: "fst (scan d s) = map advance (airplanes (generateAirplane d s))"
  by (simp add: scan_def forEach_visit_fst)

lemma fst_scan_single: "fst (scan_single d s) = map advance (airplanes (generateAirplane d s))"
  by (simp add: scan_single_def forEach_visit_single_fst)

lemma snd_scan: "locals_ok (truthy (control s)) (airplanes (generateAirplane d s))
    (length (airplanes (generateAirplane d s))) (snd (scan d s))"
  using fold_visit_locals[of "length (airplanes (generateAirplane d s))" "airplanes (generateAirplane d s)"]
  by (simp add: scan_def forEach_def locals0_def)

lemma startPlaneLanding_airplanes:
  "airplanes (startPlaneLanding r s) = (if hasPlaneNumber (airplanes s) r then setLanding r True (airplanes s) else airplanes s)"
  by (cases r) (auto simp: startPlaneLanding_def)

lemma airplanes_Simulation_tick:
  "airplanes (Simulation_tick d s) =
     (let as = map advance (airplanes (generateAirplane d s)); r = admitted d s in
      if hasPlaneNumber as r then setLanding r True as else as)"
proof -
  have sc: "\<And>k. scan d (s\<lparr>frameNumber := k\<rparr>) = scan d s"
    by (simp add: scan_def generateAirplane_def Let_def)
  show ?thesis
    by (simp add: Simulation_tick_def sc Let_def admitted_def prioritizeLandingOtherPlane_id
        startPlaneLanding_airplanes fst_scan)
qed

lemma frameNumber_Simulation_tick: "frameNumber (Simulation_tick d s) = frameNumber s + 1"
  by (simp add: Simulation_tick_def Let_def prioritizeLandingOtherPlane_id startPlaneLanding_def)

lemma control_Simulation_tick: "control (Simulation_tick d s) = control s"
  by (simp add: Simulation_tick_def Let_def prioritizeLandingOtherPlane_id startPlaneLanding_def)

lemma lastLanding_skip: "lastLanding as n r \<Longrightarrow> \<not> landing (advance (as ! n)) \<Longrightarrow> lastLanding as (Suc n) r"
  by (auto simp: lastLanding_def less_Suc_eq)

lemma lastLanding_take: "landing (advance (as ! n)) \<Longrightarrow> lastLanding as (Suc n) (Elem n)"
  by (auto simp: lastLanding_def less_Suc_eq)

lemma visit_single_snd:
  assumes f: "fst st = map advance (take n as) @ drop n as" and n: "n < length as"
  shows "snd (visit_single n st) =
     (let a = advance (as ! n);
          loc1 = (if landing a then (snd st)\<lparr>landingPlane := Elem n, planeLanding_single := True\<rparr> else snd st)
      in if js_lt (Fin (fuel a)) (fuelOf ((fst st)[n := a]) (lowestAirplane_single (snd st))) \<and> 80 \<le> fuel a \<and> \<not> landed a
         then loc1\<lparr>lowestAirplane_single := Elem n\<rparr> else loc1)"
proof -
  have at: "fst st ! n = as ! n" using f n by (simp add: nth_append)
  have len: "n < length (fst st)" using f n by simp
  have as1: "(if \<not> landed (fst st ! n) then (fst st)[n := Airplane_tick (fst st ! n)] else fst st) = (fst st)[n := advance (as ! n)]"
    using at list_update_id[of "fst st" n] by (auto simp: advance_def)
  show ?thesis
    unfolding visit_single_def Let_def as1
    using len by simp
qed

lemma visit_single_step:
  assumes f: "fst st = map advance (take n as) @ drop n as" and n: "n < length as"
    and ok: "locals_single_ok as n (snd st)"
  shows "locals_single_ok as (Suc n) (snd (visit_single n st))"
proof -
  let ?f = "\<lambda>i. fuel (advance (as ! i))"
  let ?a = "advance (as ! n)"
  let ?loc1 = "(if landing ?a then (snd st)\<lparr>landingPlane := Elem n, planeLanding_single := True\<rparr> else snd st)"
  have low: "lowestIs (cand_single as) ?f n (lowestAirplane_single (snd st))"
    using ok by (simp add: locals_single_ok_def)
  have l1: "lastLanding as (Suc n) (landingPlane ?loc1)"
    using ok by (simp add: locals_single_ok_def lastLanding_skip lastLanding_take)
  have p1: "planeLanding_single ?loc1 = (\<exists>k<Suc n. landing (advance (as ! k)))"
    using ok by (auto simp: locals_single_ok_def less_Suc_eq)
  have lo1: "lowestAirplane_single ?loc1 = lowestAirplane_single (snd st)" by simp
  have cs: "cand_single as n = (80 \<le> fuel ?a \<and> \<not> landed ?a)" by (simp add: cand_single_def)
  from lowestIs_ref[OF low] show ?thesis
  proof
    assume lit: "lowestAirplane_single (snd st) = Literal (Some PosInfinity)"
    show ?thesis
    proof (cases "cand_single as n")
      case True
      then have "snd (visit_single n st) = ?loc1\<lparr>lowestAirplane_single := Elem n\<rparr>"
        using lit cs by (simp add: visit_single_snd[OF f n] Let_def)
      then show ?thesis using l1 p1 low lit True lowestIs_take_lit[of "cand_single as" ?f n "Some PosInfinity"]
        by (simp add: locals_single_ok_def)
    next
      case False
      then have "snd (visit_single n st) = ?loc1"
        using cs by (auto simp: visit_single_snd[OF f n] Let_def)
      then show ?thesis using l1 p1 low False
        by (simp add: locals_single_ok_def lowestIs_skip)
    qed
  next
    assume "\<exists>j<n. lowestAirplane_single (snd st) = Elem j"
    then obtain j where j: "j < n" "lowestAirplane_single (snd st) = Elem j" by blast
    have fj: "fuel ((fst st)[n := ?a] ! j) = ?f j"
      using j n f by (simp add: nth_append)
    show ?thesis
    proof (cases "cand_single as n")
      case cn: True
      show ?thesis
      proof (cases "?f n < ?f j")
        case True
        then have "snd (visit_single n st) = ?loc1\<lparr>lowestAirplane_single := Elem n\<rparr>"
          using j cs cn fj by (simp add: visit_single_snd[OF f n] Let_def)
        then show ?thesis using l1 p1 low j cn True lowestIs_take[of "cand_single as" ?f n j]
          by (simp add: locals_single_ok_def)
      next
        case nlt: False
        then have "snd (visit_single n st) = ?loc1"
          using j cs cn fj by (simp add: visit_single_snd[OF f n] Let_def)
        then show ?thesis using l1 p1 low j cn nlt lowestIs_keep[of "cand_single as" ?f n "Elem j" j]
          by (simp add: locals_single_ok_def)
      qed
    next
      case False
      then have "snd (visit_single n st) = ?loc1"
        using cs by (auto simp: visit_single_snd[OF f n] Let_def)
      then show ?thesis using l1 p1 low False
        by (simp add: locals_single_ok_def lowestIs_skip)
    qed
  qed
qed

lemma fold_visit_single_locals:
  "n \<le> length as \<Longrightarrow> locals_single_ok as n (snd (fold visit_single [0..<n] (as, locals_single0)))"
proof (induction n)
  case 0
  then show ?case by (simp add: locals_single_ok_def locals_single0_def lowestIs_0 lastLanding_def)
next
  case (Suc n)
  then have "locals_single_ok as (Suc n) (snd (visit_single n (fold visit_single [0..<n] (as, locals_single0))))"
    by (intro visit_single_step) (simp_all add: fold_advance[OF visit_single_fst])
  then show ?case by simp
qed

lemma snd_scan_single: "locals_single_ok (airplanes (generateAirplane d s))
    (length (airplanes (generateAirplane d s))) (snd (scan_single d s))"
  using fold_visit_single_locals[of "length (airplanes (generateAirplane d s))" "airplanes (generateAirplane d s)"]
  by (simp add: scan_single_def forEach_def locals_single0_def)

section \<open>Invariants of the airplanes\<close>

text \<open>
  \<open>plane_ok\<close> holds of a new airplane and is kept by its tick, by an admission and, with
  one runway, by a halt: it holds of every airplane in every state a trial reaches.
\<close>

lemma plane_ok_Airplane: "plane_ok (Airplane (Suc n) r)"
  by (simp add: plane_ok_def Airplane_def)

lemma plane_ok_single_Airplane: "plane_ok_single (Airplane (Suc n) r)"
  by (simp add: plane_ok_single_def plane_ok_def Airplane_def)

lemma plane_ok_advance: "plane_ok a \<Longrightarrow> plane_ok (advance a)"
  by (auto simp: plane_ok_def advance_def Airplane_tick_def handleLanding_def handleCrash_def Let_def)

lemma plane_ok_single_advance: "plane_ok_single a \<Longrightarrow> plane_ok_single (advance a)"
  by (auto simp: plane_ok_single_def plane_ok_def advance_def Airplane_tick_def handleLanding_def handleCrash_def Let_def)

lemma all_ok_generateAirplane: "all_ok s \<Longrightarrow> all_ok (generateAirplane d s)"
  by (auto simp: all_ok_def airplanes_generateAirplane plane_ok_Airplane)

lemma all_ok_single_generateAirplane: "all_ok_single s \<Longrightarrow> all_ok_single (generateAirplane d s)"
  by (auto simp: all_ok_single_def airplanes_generateAirplane plane_ok_single_Airplane)

lemma lowestIs_Elem: "lowestIs P f n (Elem i) \<Longrightarrow> i < n \<and> P i"
  by (auto simp: lowestIs_def firstMin_def)

lemma admitted_cand:
  "admitted d s = Elem j \<Longrightarrow>
     j < length (airplanes (generateAirplane d s)) \<and> cand (airplanes (generateAirplane d s)) j"
  using snd_scan[of s d]
  by (auto simp: admitted_def Let_def locals_ok_def split: if_splits dest: lowestIs_Elem)

lemma plane_ok_admit:
  "plane_ok a \<Longrightarrow> altitude a \<le> fuel a \<Longrightarrow> plane_ok (a\<lparr>landing := True\<rparr>)"
  by (auto simp: plane_ok_def)

lemma all_ok_Simulation_tick: 
  assumes "all_ok s" shows "all_ok (Simulation_tick d s)"
proof -
  let ?g = "airplanes (generateAirplane d s)"
  let ?as = "map advance ?g"
  have ok: "\<forall>a \<in> set ?as. plane_ok a"
    using all_ok_generateAirplane[OF assms, of d] by (auto simp: all_ok_def plane_ok_advance)
  show ?thesis
  proof (cases "admitted d s")
    case (Literal v)
    then show ?thesis using ok by (simp add: all_ok_def airplanes_Simulation_tick)
  next
    case (Elem j)
    from admitted_cand[OF Elem] have j: "j < length ?g" and c: "cand ?g j" by simp_all
    have "plane_ok ((?as ! j)\<lparr>landing := True\<rparr>)"
      using ok j c by (intro plane_ok_admit) (simp_all add: cand_def)
    then have "\<forall>a \<in> set (?as[j := (?as ! j)\<lparr>landing := True\<rparr>]). plane_ok a"
      using ok set_update_subset_insert[of ?as j] by blast
    then show ?thesis using ok Elem by (simp add: all_ok_def airplanes_Simulation_tick Let_def)
  qed
qed

lemma all_ok_Simulation: "all_ok (Simulation args)"
  by (simp add: all_ok_def Simulation_def)

lemma all_ok_frames: "all_ok s \<Longrightarrow> all_ok (frames ds s)"
  by (induction ds arbitrary: s) (simp_all add: all_ok_Simulation_tick)

lemma airplanes_Simulation_tick_single:
  "airplanes (Simulation_tick_single d s) =
     (let loc = snd (scan_single d s);
          as2 = admit_single loc (map advance (airplanes (generateAirplane d s)))
      in if hasPlaneNumber as2 (landingPlane loc) \<and> \<not> truthy (control s) \<and>
            fires as2 (lowestAirplane_single loc) (landingPlane loc)
         then setLanding (lowestAirplane_single loc) True (setLanding (landingPlane loc) False as2)
         else as2)"
proof -
  define s' where "s' = s\<lparr>frameNumber := frameNumber s + 1\<rparr>"
  have sc: "scan_single d s' = scan_single d s"
    by (simp add: s'_def scan_single_def generateAirplane_def Let_def)
  define loc where "loc = snd (scan_single d s)"
  define as where "as = map advance (airplanes (generateAirplane d s))"
  define s1 where "s1 = s'\<lparr>airplanes := as\<rparr>"
  define s2 where "s2 = startPlaneLanding_single (planeLanding_single loc) (lowestAirplane_single loc) s1"
  have t: "Simulation_tick_single d s =
     (if hasPlaneNumber (airplanes s2) (landingPlane loc) \<and> \<not> truthy (control s2)
      then prioritizeLandingOtherPlane_single (lowestAirplane_single loc) (landingPlane loc) s2
      else s2)"
    unfolding Simulation_tick_single_def Let_def s2_def s1_def loc_def as_def
    by (simp only: s'_def[symmetric] sc fst_scan_single)
  have a2: "airplanes s2 = (if \<not> planeLanding_single loc \<and> as \<noteq> [] \<and> hasPlaneNumber as (lowestAirplane_single loc)
                 then setLanding (lowestAirplane_single loc) True as else as)"
    by (simp add: s2_def s1_def startPlaneLanding_single_def)
  have c2: "control s2 = control s"
    by (simp add: s2_def s1_def s'_def startPlaneLanding_single_def)
  have "airplanes (Simulation_tick_single d s) =
     (if hasPlaneNumber (airplanes s2) (landingPlane loc) \<and> \<not> truthy (control s) \<and>
            fires (airplanes s2) (lowestAirplane_single loc) (landingPlane loc)
         then setLanding (lowestAirplane_single loc) True (setLanding (landingPlane loc) False (airplanes s2))
         else airplanes s2)"
    unfolding t c2 by (simp add: prioritizeLandingOtherPlane_single_def fires_def Let_def)
  then show ?thesis
    unfolding a2 Let_def loc_def as_def admit_single_def .
qed

lemma frameNumber_Simulation_tick_single: "frameNumber (Simulation_tick_single d s) = frameNumber s + 1"
  by (simp add: Simulation_tick_single_def Let_def prioritizeLandingOtherPlane_single_def startPlaneLanding_single_def)

lemma control_Simulation_tick_single: "control (Simulation_tick_single d s) = control s"
  by (simp add: Simulation_tick_single_def Let_def prioritizeLandingOtherPlane_single_def startPlaneLanding_single_def)

lemma plane_ok_single_admit:
  "plane_ok_single a \<Longrightarrow> 80 \<le> fuel a \<Longrightarrow> \<not> landed a \<Longrightarrow> plane_ok_single (a\<lparr>landing := True\<rparr>)"
  by (auto simp: plane_ok_single_def plane_ok_def)

lemma plane_ok_single_halt: "plane_ok_single a \<Longrightarrow> plane_ok_single (a\<lparr>landing := False\<rparr>)"
  by (auto simp: plane_ok_single_def plane_ok_def)

lemma setLanding_False_ok:
  "\<forall>a \<in> set as. plane_ok_single a \<Longrightarrow> \<forall>a \<in> set (setLanding r False as). plane_ok_single a"
proof (cases r)
  case (Literal v)
  assume "\<forall>a \<in> set as. plane_ok_single a"
  then show ?thesis using Literal by simp
next
  case (Elem k)
  assume ok: "\<forall>a \<in> set as. plane_ok_single a"
  show ?thesis
  proof (cases "k < length as")
    case True
    then have "plane_ok_single ((as ! k)\<lparr>landing := False\<rparr>)" using ok by (simp add: plane_ok_single_halt)
    then show ?thesis using ok Elem set_update_subset_insert[of as k] by auto
  next
    case False
    then show ?thesis using ok Elem by (simp add: list_update_beyond)
  qed
qed

lemma setLanding_True_ok:
  assumes ok: "\<forall>a \<in> set as. plane_ok_single a"
    and r: "\<And>j. r = Elem j \<Longrightarrow> j < length as \<and> 80 \<le> fuel (as ! j) \<and> \<not> landed (as ! j)"
  shows "\<forall>a \<in> set (setLanding r True as). plane_ok_single a"
proof (cases r)
  case (Literal v)
  then show ?thesis using ok by simp
next
  case (Elem j)
  then have "plane_ok_single ((as ! j)\<lparr>landing := True\<rparr>)" using ok r by (simp add: plane_ok_single_admit)
  then show ?thesis using ok Elem set_update_subset_insert[of as j] by auto
qed

lemma setLanding_fuel: "fuel (setLanding r v as ! j) = fuel (as ! j)"
proof (cases r)
  case (Literal x)
  then show ?thesis by simp
next
  case (Elem k)
  then show ?thesis by (cases "k = j"; cases "k < length as") (simp_all add: list_update_beyond)
qed

lemma setLanding_landed: "landed (setLanding r v as ! j) = landed (as ! j)"
proof (cases r)
  case (Literal x)
  then show ?thesis by simp
next
  case (Elem k)
  then show ?thesis by (cases "k = j"; cases "k < length as") (simp_all add: list_update_beyond)
qed

lemma scan_single_lowest:
  "lowestAirplane_single (snd (scan_single d s)) = Elem j \<Longrightarrow>
     j < length (airplanes (generateAirplane d s)) \<and> cand_single (airplanes (generateAirplane d s)) j"
  using snd_scan_single[of d s] by (auto simp: locals_single_ok_def dest: lowestIs_Elem)

lemma all_ok_single_Simulation_tick:
  assumes "all_ok_single s" shows "all_ok_single (Simulation_tick_single d s)"
proof -
  define as where "as = map advance (airplanes (generateAirplane d s))"
  define loc where "loc = snd (scan_single d s)"
  define lo where "lo = lowestAirplane_single loc"
  define as2 where "as2 = admit_single loc as"
  have ok: "\<forall>a \<in> set as. plane_ok_single a"
    using all_ok_single_generateAirplane[OF assms, of d]
    by (auto simp: as_def all_ok_single_def plane_ok_single_advance)
  have lo: "\<And>j. lo = Elem j \<Longrightarrow> j < length as \<and> 80 \<le> fuel (as ! j) \<and> \<not> landed (as ! j)"
    using scan_single_lowest[of d s] by (auto simp: cand_single_def lo_def loc_def as_def)
  have ok2: "\<forall>a \<in> set as2. plane_ok_single a"
    using ok setLanding_True_ok[OF ok lo] by (simp add: as2_def admit_single_def lo_def)
  have same: "length as2 = length as" "\<And>j. fuel (as2 ! j) = fuel (as ! j)" "\<And>j. landed (as2 ! j) = landed (as ! j)"
    by (simp_all add: as2_def admit_single_def length_setLanding setLanding_fuel setLanding_landed)
  have lo2: "\<And>j. lo = Elem j \<Longrightarrow> j < length (setLanding (landingPlane loc) False as2) \<and>
      80 \<le> fuel (setLanding (landingPlane loc) False as2 ! j) \<and> \<not> landed (setLanding (landingPlane loc) False as2 ! j)"
    using lo by (simp add: setLanding_fuel setLanding_landed length_setLanding same)
  have ok3: "\<forall>a \<in> set (setLanding lo True (setLanding (landingPlane loc) False as2)). plane_ok_single a"
    by (rule setLanding_True_ok[OF setLanding_False_ok[OF ok2] lo2])
  have "airplanes (Simulation_tick_single d s) = as2 \<or>
     airplanes (Simulation_tick_single d s) = setLanding lo True (setLanding (landingPlane loc) False as2)"
    unfolding airplanes_Simulation_tick_single Let_def as2_def lo_def loc_def as_def by simp
  then show ?thesis
    unfolding all_ok_single_def using ok2 ok3 by auto
qed

lemma all_ok_single_Simulation: "all_ok_single (Simulation args)"
  by (simp add: all_ok_single_def Simulation_def)

lemma all_ok_single_frames: "all_ok_single s \<Longrightarrow> all_ok_single (frames_single ds s)"
  by (induction ds arbitrary: s) (simp_all add: all_ok_single_Simulation_tick)

section \<open>What a frame changes\<close>

text \<open>
  A frame keeps the airplanes it found, in their places, and appends at most one; beyond
  their ticks it changes landing flags only.
\<close>

lemma length_generateAirplane: "length (airplanes s) \<le> length (airplanes (generateAirplane d s))"
  by (simp add: airplanes_generateAirplane)

lemma nth_generateAirplane:
  "i < length (airplanes s) \<Longrightarrow> airplanes (generateAirplane d s) ! i = airplanes s ! i"
  by (simp add: airplanes_generateAirplane nth_append)

lemma length_Simulation_tick:
  "length (airplanes (Simulation_tick d s)) = length (airplanes (generateAirplane d s))"
  by (simp add: airplanes_Simulation_tick Let_def length_setLanding)

lemma nth_Simulation_tick:
  "i < length (airplanes (generateAirplane d s)) \<Longrightarrow>
     sameButLanding (advance (airplanes (generateAirplane d s) ! i)) (airplanes (Simulation_tick d s) ! i)"
  using setLanding_same[of i "map advance (airplanes (generateAirplane d s))" "admitted d s" True]
  by (simp add: airplanes_Simulation_tick Let_def sameButLanding_refl)

lemma length_admit_single: "length (admit_single loc as) = length as"
  by (simp add: admit_single_def length_setLanding)

lemma admit_single_same: "i < length as \<Longrightarrow> sameButLanding (as ! i) (admit_single loc as ! i)"
  by (simp add: admit_single_def setLanding_same sameButLanding_refl)

lemma length_Simulation_tick_single:
  "length (airplanes (Simulation_tick_single d s)) = length (airplanes (generateAirplane d s))"
  by (simp add: airplanes_Simulation_tick_single Let_def length_setLanding length_admit_single)

lemma nth_Simulation_tick_single:
  assumes "i < length (airplanes (generateAirplane d s))"
  shows "sameButLanding (advance (airplanes (generateAirplane d s) ! i)) (airplanes (Simulation_tick_single d s) ! i)"
proof -
  define as where "as = map advance (airplanes (generateAirplane d s))"
  define loc where "loc = snd (scan_single d s)"
  define as2 where "as2 = admit_single loc as"
  have i: "i < length as" using assms by (simp add: as_def)
  have a: "as ! i = advance (airplanes (generateAirplane d s) ! i)" using assms by (simp add: as_def)
  have 1: "sameButLanding (as ! i) (as2 ! i)" using i by (simp add: as2_def admit_single_same)
  have i2: "i < length as2" using i by (simp add: as2_def length_admit_single)
  have "sameButLanding (as2 ! i) (setLanding (landingPlane loc) False as2 ! i)"
    using i2 by (rule setLanding_same)
  moreover have "sameButLanding (setLanding (landingPlane loc) False as2 ! i)
      (setLanding (lowestAirplane_single loc) True (setLanding (landingPlane loc) False as2) ! i)"
    using i2 by (intro setLanding_same) (simp add: length_setLanding)
  ultimately have 2: "sameButLanding (as ! i)
      (setLanding (lowestAirplane_single loc) True (setLanding (landingPlane loc) False as2) ! i)"
    using 1 sameButLanding_trans by blast
  have "airplanes (Simulation_tick_single d s) = as2 \<or>
     airplanes (Simulation_tick_single d s) = setLanding (lowestAirplane_single loc) True (setLanding (landingPlane loc) False as2)"
    unfolding airplanes_Simulation_tick_single Let_def as2_def loc_def as_def by simp
  then show ?thesis using 1 2 a by auto
qed

lemma advance_landing_not_crashed:
  "landing a \<Longrightarrow> \<not> crashed a \<Longrightarrow> \<not> crashed (advance a)"
  by (simp add: advance_def Airplane_tick_def handleLanding_def Let_def)

lemma plane_ok_facts:
  "plane_ok a \<Longrightarrow> (landing a \<longrightarrow> altitude a \<le> fuel a \<and> \<not> crashed a) \<and> (landed a \<longrightarrow> 0 \<le> fuel a)"
  by (auto simp: plane_ok_def)

lemma reach_ok: "all_ok (frames ds (Simulation args))"
  by (simp add: all_ok_frames all_ok_Simulation)

lemma reach_single_ok: "all_ok_single (frames_single ds (Simulation args))"
  by (simp add: all_ok_single_frames all_ok_single_Simulation)

lemma landing_survives:
  assumes ok: "plane_ok (airplanes s ! i)" and i: "i < length (airplanes s)" and l: "landing (airplanes s ! i)"
  shows "\<not> crashed (airplanes (Simulation_tick d s) ! i) \<and> \<not> crashed (airplanes (Simulation_tick_single d s) ! i)"
proof -
  have g: "i < length (airplanes (generateAirplane d s))" using i length_generateAirplane[of s d] by simp
  have "\<not> crashed (airplanes s ! i)" using ok l by (auto simp: plane_ok_def)
  then have nc: "\<not> crashed (advance (airplanes (generateAirplane d s) ! i))"
    using l i by (simp add: nth_generateAirplane advance_landing_not_crashed)
  show ?thesis
    using nc sameButLanding_fields[OF nth_Simulation_tick[OF g]]
      sameButLanding_fields[OF nth_Simulation_tick_single[OF g]] by simp
qed

lemma run_multi: "airplanes (frames ((0, 0) # (0, 899) # replicate 80 (1, 0)) (Simulation [Number 1, Boolean True])) =
  [\<lparr>planeNumber = 1, fuel = 19, fuelRate = 1, crashed = False, altitude = 0, landing = True, landed = True\<rparr>,
   \<lparr>planeNumber = 2, fuel = 918, fuelRate = 1, crashed = False, altitude = 80, landing = True, landed = False\<rparr>]"
  by code_simp

lemma run_single: "airplanes (frames_single ((0, 0) # (0, 899) # replicate 80 (1, 0)) (Simulation [Number 1, Boolean True])) =
  [\<lparr>planeNumber = 1, fuel = 19, fuelRate = 1, crashed = False, altitude = 0, landing = False, landed = True\<rparr>,
   \<lparr>planeNumber = 2, fuel = 918, fuelRate = 1, crashed = False, altitude = 79, landing = True, landed = False\<rparr>]"
  by code_simp

lemma two_arrivals_multi:
  "airplanes (frames two_arrivals (Simulation [Number 2, Boolean True])) =
  [\<lparr>planeNumber = 1, fuel = 19, fuelRate = 1, crashed = False, altitude = 0, landing = True, landed = True\<rparr>,
   \<lparr>planeNumber = 2, fuel = 918, fuelRate = 1, crashed = False, altitude = 80, landing = True, landed = False\<rparr>]"
  by code_simp

lemma two_arrivals_single:
  "airplanes (frames_single two_arrivals (Simulation [Number 2, Boolean True])) =
  [\<lparr>planeNumber = 1, fuel = 19, fuelRate = 1, crashed = False, altitude = 0, landing = False, landed = True\<rparr>,
   \<lparr>planeNumber = 2, fuel = 918, fuelRate = 1, crashed = False, altitude = 79, landing = True, landed = False\<rparr>]"
  by code_simp

section \<open>Airplanes that landed or crashed\<close>

text \<open>
  A landed or crashed airplane is skipped or ticked without effect, and is neither the
  best candidate nor the landing airplane of a frame.
\<close>

lemma Airplane_tick_crashed: "crashed a \<Longrightarrow> Airplane_tick a = a"
  by (simp add: Airplane_tick_def)

lemma advance_terminal: "landed a \<or> crashed a \<Longrightarrow> advance a = a"
  by (auto simp: advance_def Airplane_tick_crashed)

lemma lastLanding_Elem: "lastLanding as n (Elem k) \<Longrightarrow> k < n \<and> landing (advance (as ! k))"
  by (auto simp: lastLanding_def)

lemma scan_single_landingPlane:
  "landingPlane (snd (scan_single d s)) = Elem k \<Longrightarrow>
     k < length (airplanes (generateAirplane d s)) \<and> landing (advance (airplanes (generateAirplane d s) ! k))"
  using snd_scan_single[of d s] by (auto simp: locals_single_ok_def dest: lastLanding_Elem)

lemma frozen_step:
  assumes ok: "all_ok s" and i: "i < length (airplanes s)"
    and t: "landed (airplanes s ! i) \<or> crashed (airplanes s ! i)"
  shows "airplanes (Simulation_tick d s) ! i = airplanes s ! i"
proof -
  let ?g = "airplanes (generateAirplane d s)"
  have g: "i < length ?g" "?g ! i = airplanes s ! i"
    using i length_generateAirplane[of s d] by (simp_all add: nth_generateAirplane)
  have adv: "map advance ?g ! i = airplanes s ! i" using g t by (simp add: advance_terminal)
  have pk: "plane_ok (airplanes s ! i)" using ok i by (simp add: all_ok_def)
  have "admitted d s \<noteq> Elem i"
  proof
    assume "admitted d s = Elem i"
    from admitted_cand[OF this] have "cand ?g i" by simp
    then have "\<not> landed (airplanes s ! i)" "altitude (airplanes s ! i) \<le> fuel (airplanes s ! i)"
      using g t by (auto simp: cand_def advance_terminal)
    then show False using t pk by (auto simp: plane_ok_def)
  qed
  then show ?thesis
    using adv by (simp add: airplanes_Simulation_tick Let_def setLanding_other)
qed

lemma frozen_step_single:
  assumes ok: "all_ok_single s" and i: "i < length (airplanes s)"
    and t: "landed (airplanes s ! i) \<or> crashed (airplanes s ! i)"
  shows "airplanes (Simulation_tick_single d s) ! i = airplanes s ! i"
proof -
  let ?g = "airplanes (generateAirplane d s)"
  define loc where "loc = snd (scan_single d s)"
  define as2 where "as2 = admit_single loc (map advance ?g)"
  have g: "i < length ?g" "?g ! i = airplanes s ! i"
    using i length_generateAirplane[of s d] by (simp_all add: nth_generateAirplane)
  have adv: "advance (?g ! i) = airplanes s ! i" using g t by (simp add: advance_terminal)
  have pk: "plane_ok_single (airplanes s ! i)" using ok i by (simp add: all_ok_single_def)
  have lo: "lowestAirplane_single loc \<noteq> Elem i"
  proof
    assume "lowestAirplane_single loc = Elem i"
    then have "cand_single ?g i" using scan_single_lowest[of d s i] by (simp add: loc_def)
    then have "\<not> landed (airplanes s ! i)" "80 \<le> fuel (airplanes s ! i)"
      using adv by (auto simp: cand_single_def)
    then show False using t pk by (auto simp: plane_ok_single_def plane_ok_def)
  qed
  have lp: "landingPlane loc \<noteq> Elem i"
  proof
    assume "landingPlane loc = Elem i"
    then have "landing (airplanes s ! i)" using scan_single_landingPlane[of d s i] adv by (simp add: loc_def)
    then show False using t pk by (auto simp: plane_ok_single_def plane_ok_def)
  qed
  have a2: "as2 ! i = airplanes s ! i"
    using lo adv g by (simp add: as2_def admit_single_def setLanding_other)
  have "airplanes (Simulation_tick_single d s) = as2 \<or>
     airplanes (Simulation_tick_single d s) = setLanding (lowestAirplane_single loc) True (setLanding (landingPlane loc) False as2)"
    unfolding airplanes_Simulation_tick_single Let_def as2_def loc_def by simp
  then show ?thesis using a2 lo lp by (auto simp: setLanding_other)
qed

lemma frozen_frames:
  "all_ok s \<Longrightarrow> i < length (airplanes s) \<Longrightarrow> landed (airplanes s ! i) \<or> crashed (airplanes s ! i) \<Longrightarrow>
     i < length (airplanes (frames ds s)) \<and> airplanes (frames ds s) ! i = airplanes s ! i"
proof (induction ds arbitrary: s)
  case Nil
  then show ?case by simp
next
  case (Cons d ds)
  have 1: "all_ok (Simulation_tick d s)" using Cons.prems by (simp add: all_ok_Simulation_tick)
  have 2: "i < length (airplanes (Simulation_tick d s))"
    using Cons.prems length_generateAirplane[of s d] by (simp add: length_Simulation_tick)
  have 3: "airplanes (Simulation_tick d s) ! i = airplanes s ! i"
    using Cons.prems by (simp add: frozen_step)
  show ?case using Cons.IH[OF 1 2] 3 Cons.prems by simp
qed

lemma frozen_frames_single:
  "all_ok_single s \<Longrightarrow> i < length (airplanes s) \<Longrightarrow> landed (airplanes s ! i) \<or> crashed (airplanes s ! i) \<Longrightarrow>
     i < length (airplanes (frames_single ds s)) \<and> airplanes (frames_single ds s) ! i = airplanes s ! i"
proof (induction ds arbitrary: s)
  case Nil
  then show ?case by simp
next
  case (Cons d ds)
  have 1: "all_ok_single (Simulation_tick_single d s)" using Cons.prems by (simp add: all_ok_single_Simulation_tick)
  have 2: "i < length (airplanes (Simulation_tick_single d s))"
    using Cons.prems length_generateAirplane[of s d] by (simp add: length_Simulation_tick_single)
  have 3: "airplanes (Simulation_tick_single d s) ! i = airplanes s ! i"
    using Cons.prems by (simp add: frozen_step_single)
  show ?case using Cons.IH[OF 1 2] 3 Cons.prems by simp
qed

lemma frames_append: "frames (ds @ es) s = frames es (frames ds s)"
  by (induction ds arbitrary: s) simp_all

lemma frames_single_append: "frames_single (ds @ es) s = frames_single es (frames_single ds s)"
  by (induction ds arbitrary: s) simp_all

lemma plane_ok_terminal: "plane_ok a \<Longrightarrow> \<not> (landed a \<and> crashed a)"
  by (auto simp: plane_ok_def)

section \<open>Airplane.tick\<close>

lemma Airplane_tick_landing:
  "\<not> crashed a \<Longrightarrow> fuelRate a = 1 \<Longrightarrow> landing a \<Longrightarrow>
     Airplane_tick a =
       (if altitude a - 1 = 0
        then a\<lparr>fuel := fuel a - 1, altitude := altitude a - 1, landing := False, landed := True\<rparr>
        else a\<lparr>fuel := fuel a - 1, altitude := altitude a - 1\<rparr>)"
  by (simp add: Airplane_tick_def handleLanding_def Let_def)

lemma Airplane_tick_waiting:
  "\<not> crashed a \<Longrightarrow> fuelRate a = 1 \<Longrightarrow> \<not> landing a \<Longrightarrow>
     Airplane_tick a =
       (if fuel a - 1 \<le> 0 then a\<lparr>fuel := fuel a - 1, crashed := True\<rparr> else a\<lparr>fuel := fuel a - 1\<rparr>)"
  by (simp add: Airplane_tick_def handleCrash_def Let_def)

lemma nth_tick_advance:
  assumes "i < length (airplanes s)"
  shows "sameButLanding (advance (airplanes s ! i)) (airplanes (Simulation_tick d s) ! i) \<and>
         sameButLanding (advance (airplanes s ! i)) (airplanes (Simulation_tick_single d s) ! i)"
proof -
  have g: "i < length (airplanes (generateAirplane d s))"
    using assms length_generateAirplane[of s d] by simp
  show ?thesis
    using nth_Simulation_tick[OF g] nth_Simulation_tick_single[OF g] assms
    by (simp add: nth_generateAirplane)
qed

section \<open>prioritizeLandingOtherPlane with one runway\<close>

lemma fires_Elem:
  "fires as lowest (Elem k) =
     (js_lt (fuelOf as lowest) (Fin (fuel (as ! k))) \<and> 81 + altitude (as ! k) \<le> fuel (as ! k))"
  by (auto simp: fires_def)

lemma airplanes_prioritize_single:
  "airplanes (prioritizeLandingOtherPlane_single lowest lp s) =
     (if fires (airplanes s) lowest lp
      then setLanding lowest True (setLanding lp False (airplanes s)) else airplanes s)"
  by (simp add: prioritizeLandingOtherPlane_single_def fires_def Let_def)

lemma prioritize_single_other_fields:
  "(prioritizeLandingOtherPlane_single lowest lp s)\<lparr>airplanes := airplanes s\<rparr> = s"
  by (cases s) (simp add: prioritizeLandingOtherPlane_single_def Let_def)

lemma prioritize_single_no_fire:
  "\<not> fires (airplanes s) lowest lp \<Longrightarrow> prioritizeLandingOtherPlane_single lowest lp s = s"
  by (auto simp: prioritizeLandingOtherPlane_single_def fires_def Let_def)

lemma setLanding_altitude: "altitude (setLanding r v as ! j) = altitude (as ! j)"
proof (cases r)
  case (Literal x)
  then show ?thesis by simp
next
  case (Elem k)
  then show ?thesis by (cases "k = j"; cases "k < length as") (simp_all add: list_update_beyond)
qed

lemma setLanding_True_keeps: "landing (as ! i) \<Longrightarrow> landing (setLanding r True as ! i)"
proof (cases r)
  case (Literal x)
  assume "landing (as ! i)" then show ?thesis using Literal by simp
next
  case (Elem k)
  assume "landing (as ! i)"
  then show ?thesis using Elem by (cases "k = i"; cases "k < length as") (simp_all add: list_update_beyond)
qed

lemma admit_single_keeps: "landing (as ! i) \<Longrightarrow> landing (admit_single loc as ! i)"
  by (simp add: admit_single_def setLanding_True_keeps)

lemma admit_single_fuel: "fuel (admit_single loc as ! j) = fuel (as ! j)"
  by (simp add: admit_single_def setLanding_fuel)

lemma admit_single_altitude: "altitude (admit_single loc as ! j) = altitude (as ! j)"
  by (simp add: admit_single_def setLanding_altitude)

lemma fuelOf_setLanding: "fuelOf (setLanding r v as) x = fuelOf as x"
proof (cases x)
  case (Literal v)
  then show ?thesis by (cases v) simp_all
next
  case (Elem j)
  then show ?thesis by (simp add: setLanding_fuel)
qed

lemma altitudeOf_setLanding: "altitudeOf (setLanding r v as) x = altitudeOf as x"
  by (cases x) (simp_all add: setLanding_altitude)

lemma fires_admit_single: "fires (admit_single loc as) lo lp = fires as lo lp"
  by (simp add: admit_single_def fires_def fuelOf_setLanding altitudeOf_setLanding)

lemma halted_single_fired:
  assumes h: "halted_single d s i"
  shows "\<not> truthy (control s) \<and> landingPlane (snd (scan_single d s)) = Elem i \<and>
         fires (map advance (airplanes (generateAirplane d s)))
           (lowestAirplane_single (snd (scan_single d s))) (Elem i)"
proof -
  define as where "as = map advance (airplanes (generateAirplane d s))"
  define loc where "loc = snd (scan_single d s)"
  define as2 where "as2 = admit_single loc as"
  have i: "i < length as" "landing (as ! i)" using h by (simp_all add: halted_single_def as_def)
  have nl: "\<not> landing (airplanes (Simulation_tick_single d s) ! i)" using h by (simp add: halted_single_def)
  have l2: "landing (as2 ! i)" using i by (simp add: as2_def admit_single_keeps)
  have t: "airplanes (Simulation_tick_single d s) =
     (if hasPlaneNumber as2 (landingPlane loc) \<and> \<not> truthy (control s) \<and>
            fires as2 (lowestAirplane_single loc) (landingPlane loc)
         then setLanding (lowestAirplane_single loc) True (setLanding (landingPlane loc) False as2)
         else as2)"
    unfolding airplanes_Simulation_tick_single Let_def as2_def loc_def as_def by simp
  have c: "\<not> truthy (control s)" and f: "fires as2 (lowestAirplane_single loc) (landingPlane loc)"
    using t nl l2 by (auto split: if_splits)
  have fin: "airplanes (Simulation_tick_single d s) =
      setLanding (lowestAirplane_single loc) True (setLanding (landingPlane loc) False as2)"
    using t nl l2 by (auto split: if_splits)
  have "landingPlane loc = Elem i"
  proof (rule ccontr)
    assume "landingPlane loc \<noteq> Elem i"
    then have "setLanding (landingPlane loc) False as2 ! i = as2 ! i" by (simp add: setLanding_other)
    then have "landing (setLanding (lowestAirplane_single loc) True (setLanding (landingPlane loc) False as2) ! i)"
      using l2 by (simp add: setLanding_True_keeps)
    then show False using nl fin by simp
  qed
  then show ?thesis using c f by (simp add: as2_def fires_admit_single loc_def as_def)
qed

lemma js_lt_PosInfinity: "\<not> js_lt PosInfinity x"
  by (cases x) simp_all

lemma scan_single_lowest_ref:
  "lowestAirplane_single (snd (scan_single d s)) = Literal (Some PosInfinity) \<or>
   (\<exists>j < length (airplanes (generateAirplane d s)). lowestAirplane_single (snd (scan_single d s)) = Elem j)"
  using snd_scan_single[of d s] by (auto simp: locals_single_ok_def dest: lowestIs_ref)

lemma early_arrival_single:
  "airplanes (frames_single early_arrival (Simulation [Number 1, Boolean False])) =
     [\<lparr>planeNumber = 1, fuel = 130, fuelRate = 1, crashed = False, altitude = 11,
       landing = True, landed = False\<rparr>]"
  by code_simp

lemma early_arrival_halted:
  "halted_single (0, 0) (frames_single early_arrival (Simulation [Number 1, Boolean False])) 0"
  by code_simp

lemma early_arrival_after:
  "map (\<lambda>a. (fuel a, altitude a, landing a))
     (airplanes (Simulation_tick_single (0, 0)
        (frames_single early_arrival (Simulation [Number 1, Boolean False])))) =
   [(129, 10, False), (99, 80, True)]"
  by code_simp

section \<open>A landing, frame by frame\<close>

text \<open>
  A landing airplane descends by 1 per frame and keeps its landing flag until it touches
  down: nothing halts it in src/airport.js, and in src/unnamed/part_000 nothing does while
  its fuel is below 81 plus its altitude, which a landing does not change.
\<close>

lemma advance_landing:
  "landing p \<Longrightarrow> \<not> landed p \<Longrightarrow> \<not> crashed p \<Longrightarrow> fuelRate p = 1 \<Longrightarrow>
     advance p =
       (if altitude p = 1
        then p\<lparr>fuel := fuel p - 1, altitude := 0, landing := False, landed := True\<rparr>
        else p\<lparr>fuel := fuel p - 1, altitude := altitude p - 1\<rparr>)"
  by (simp add: advance_def Airplane_tick_landing)

lemma descent_fields:
  assumes i: "i < length (airplanes s)"
    and p: "landing (airplanes s ! i)" "\<not> landed (airplanes s ! i)" "\<not> crashed (airplanes s ! i)"
      "fuelRate (airplanes s ! i) = 1"
    and q: "sameButLanding (advance (airplanes s ! i)) q"
  shows "fuel q = fuel (airplanes s ! i) - 1 \<and> altitude q = altitude (airplanes s ! i) - 1 \<and>
         \<not> crashed q \<and> fuelRate q = 1 \<and> landed q = (altitude (airplanes s ! i) = 1)"
  using sameButLanding_fields[OF q] p by (simp add: advance_landing)

lemma descent_step:
  assumes i: "i < length (airplanes s)"
    and p: "landing (airplanes s ! i)" "\<not> landed (airplanes s ! i)" "\<not> crashed (airplanes s ! i)"
      "fuelRate (airplanes s ! i) = 1"
  shows "fuel (airplanes (Simulation_tick d s) ! i) = fuel (airplanes s ! i) - 1 \<and>
         altitude (airplanes (Simulation_tick d s) ! i) = altitude (airplanes s ! i) - 1 \<and>
         \<not> crashed (airplanes (Simulation_tick d s) ! i) \<and>
         fuelRate (airplanes (Simulation_tick d s) ! i) = 1 \<and>
         landed (airplanes (Simulation_tick d s) ! i) = (altitude (airplanes s ! i) = 1) \<and>
         (altitude (airplanes s ! i) \<noteq> 1 \<longrightarrow> landing (airplanes (Simulation_tick d s) ! i))"
proof -
  let ?g = "airplanes (generateAirplane d s)"
  have g: "i < length ?g" "?g ! i = airplanes s ! i"
    using i length_generateAirplane[of s d] by (simp_all add: nth_generateAirplane)
  have f: "fuel (airplanes (Simulation_tick d s) ! i) = fuel (airplanes s ! i) - 1 \<and>
         altitude (airplanes (Simulation_tick d s) ! i) = altitude (airplanes s ! i) - 1 \<and>
         \<not> crashed (airplanes (Simulation_tick d s) ! i) \<and>
         fuelRate (airplanes (Simulation_tick d s) ! i) = 1 \<and>
         landed (airplanes (Simulation_tick d s) ! i) = (altitude (airplanes s ! i) = 1)"
    using descent_fields[OF i p] nth_tick_advance[OF i, of d] by blast
  have "landing (airplanes (Simulation_tick d s) ! i)" if "altitude (airplanes s ! i) \<noteq> 1"
  proof -
    have "landing (map advance ?g ! i)" using g p that by (simp add: advance_landing)
    then show ?thesis
      by (simp add: airplanes_Simulation_tick Let_def setLanding_True_keeps del: setLanding.simps)
  qed
  then show ?thesis using f by blast
qed

lemma descent_step_single:
  assumes i: "i < length (airplanes s)"
    and p: "landing (airplanes s ! i)" "\<not> landed (airplanes s ! i)" "\<not> crashed (airplanes s ! i)"
      "fuelRate (airplanes s ! i) = 1"
    and m: "fuel (airplanes s ! i) < 81 + altitude (airplanes s ! i)"
  shows "fuel (airplanes (Simulation_tick_single d s) ! i) = fuel (airplanes s ! i) - 1 \<and>
         altitude (airplanes (Simulation_tick_single d s) ! i) = altitude (airplanes s ! i) - 1 \<and>
         \<not> crashed (airplanes (Simulation_tick_single d s) ! i) \<and>
         fuelRate (airplanes (Simulation_tick_single d s) ! i) = 1 \<and>
         landed (airplanes (Simulation_tick_single d s) ! i) = (altitude (airplanes s ! i) = 1) \<and>
         (altitude (airplanes s ! i) \<noteq> 1 \<longrightarrow> landing (airplanes (Simulation_tick_single d s) ! i))"
proof -
  let ?g = "airplanes (generateAirplane d s)"
  have g: "i < length ?g" "?g ! i = airplanes s ! i"
    using i length_generateAirplane[of s d] by (simp_all add: nth_generateAirplane)
  have f: "fuel (airplanes (Simulation_tick_single d s) ! i) = fuel (airplanes s ! i) - 1 \<and>
         altitude (airplanes (Simulation_tick_single d s) ! i) = altitude (airplanes s ! i) - 1 \<and>
         \<not> crashed (airplanes (Simulation_tick_single d s) ! i) \<and>
         fuelRate (airplanes (Simulation_tick_single d s) ! i) = 1 \<and>
         landed (airplanes (Simulation_tick_single d s) ! i) = (altitude (airplanes s ! i) = 1)"
    using descent_fields[OF i p] nth_tick_advance[OF i, of d] by blast
  have "landing (airplanes (Simulation_tick_single d s) ! i)" if "altitude (airplanes s ! i) \<noteq> 1"
  proof (rule ccontr)
    assume n: "\<not> landing (airplanes (Simulation_tick_single d s) ! i)"
    have a: "advance (?g ! i) = (airplanes s ! i)\<lparr>fuel := fuel (airplanes s ! i) - 1,
        altitude := altitude (airplanes s ! i) - 1\<rparr>"
      using g p that by (simp add: advance_landing)
    then have "halted_single d s i" using g p n by (simp add: halted_single_def)
    from halted_single_fired[OF this] have "fires (map advance ?g) (lowestAirplane_single (snd (scan_single d s))) (Elem i)"
      by simp
    then have "81 + altitude (advance (?g ! i)) \<le> fuel (advance (?g ! i))"
      using g by (simp add: fires_Elem)
    then show False using a m by simp
  qed
  then show ?thesis using f by blast
qed

lemma landing_completes:
  "es \<noteq> [] \<Longrightarrow> i < length (airplanes s) \<Longrightarrow> landing (airplanes s ! i) \<Longrightarrow>
   \<not> landed (airplanes s ! i) \<Longrightarrow> \<not> crashed (airplanes s ! i) \<Longrightarrow> fuelRate (airplanes s ! i) = 1 \<Longrightarrow>
   altitude (airplanes s ! i) = int (length es) \<Longrightarrow>
     landed (airplanes (frames es s) ! i) \<and> \<not> crashed (airplanes (frames es s) ! i) \<and>
     fuel (airplanes (frames es s) ! i) = fuel (airplanes s ! i) - int (length es)"
proof (induction es arbitrary: s rule: list_nonempty_induct)
  case (single d)
  then show ?case using descent_step[of i s d] by simp
next
  case (cons d es)
  have alt: "altitude (airplanes s ! i) \<noteq> 1" using cons.hyps cons.prems by (cases es) simp_all
  note st = descent_step[OF cons.prems(1-5), of d]
  have i': "i < length (airplanes (Simulation_tick d s))"
    using cons.prems(1) length_generateAirplane[of s d] by (simp add: length_Simulation_tick)
  have "landed (airplanes (frames es (Simulation_tick d s)) ! i) \<and>
     \<not> crashed (airplanes (frames es (Simulation_tick d s)) ! i) \<and>
     fuel (airplanes (frames es (Simulation_tick d s)) ! i) =
       fuel (airplanes (Simulation_tick d s) ! i) - int (length es)"
    using st alt cons.prems(6) by (intro cons.IH[OF i']) simp_all
  then show ?case using st by simp
qed

lemma landing_completes_single:
  "es \<noteq> [] \<Longrightarrow> i < length (airplanes s) \<Longrightarrow> landing (airplanes s ! i) \<Longrightarrow>
   \<not> landed (airplanes s ! i) \<Longrightarrow> \<not> crashed (airplanes s ! i) \<Longrightarrow> fuelRate (airplanes s ! i) = 1 \<Longrightarrow>
   altitude (airplanes s ! i) = int (length es) \<Longrightarrow>
   fuel (airplanes s ! i) < 81 + altitude (airplanes s ! i) \<Longrightarrow>
     landed (airplanes (frames_single es s) ! i) \<and> \<not> crashed (airplanes (frames_single es s) ! i) \<and>
     fuel (airplanes (frames_single es s) ! i) = fuel (airplanes s ! i) - int (length es)"
proof (induction es arbitrary: s rule: list_nonempty_induct)
  case (single d)
  then show ?case using descent_step_single[of i s d] by simp
next
  case (cons d es)
  have alt: "altitude (airplanes s ! i) \<noteq> 1" using cons.hyps cons.prems by (cases es) simp_all
  note st = descent_step_single[OF cons.prems(1-5) cons.prems(7), of d]
  have i': "i < length (airplanes (Simulation_tick_single d s))"
    using cons.prems(1) length_generateAirplane[of s d] by (simp add: length_Simulation_tick_single)
  have "landed (airplanes (frames_single es (Simulation_tick_single d s)) ! i) \<and>
     \<not> crashed (airplanes (frames_single es (Simulation_tick_single d s)) ! i) \<and>
     fuel (airplanes (frames_single es (Simulation_tick_single d s)) ! i) =
       fuel (airplanes (Simulation_tick_single d s) ! i) - int (length es)"
    using st alt cons.prems(6) cons.prems(7) by (intro cons.IH[OF i']) simp_all
  then show ?case using st by simp
qed

lemma spawned_plane:
  assumes "fst d = 0"
  shows "length (airplanes (generateAirplane d s)) = Suc (length (airplanes s)) \<and>
     advance (airplanes (generateAirplane d s) ! length (airplanes s)) =
       \<lparr>planeNumber = Suc (length (airplanes s)), fuel = int (snd d) + 100 - 1, fuelRate = 1,
        crashed = False, altitude = 80, landing = False, landed = False\<rparr>"
  using assms
  by (simp add: airplanes_generateAirplane advance_def Airplane_def Airplane_tick_def handleCrash_def Let_def)

lemma spawned_fields:
  assumes "sameButLanding
     \<lparr>planeNumber = n, fuel = f, fuelRate = 1, crashed = False, altitude = 80, landing = False, landed = False\<rparr> q"
  shows "fuel q = f \<and> altitude q = 80 \<and> \<not> crashed q \<and> \<not> landed q \<and> fuelRate q = 1"
  using sameButLanding_fields[OF assms] by simp

lemma first_frame:
  "airplanes (Simulation_tick (0, r) (Simulation args)) =
     [\<lparr>planeNumber = 1, fuel = int r + 99, fuelRate = 1, crashed = False, altitude = 80,
       landing = True, landed = False\<rparr>]"
  by (simp add: Simulation_tick_def scan_def forEach_def visit_def generateAirplane_def Simulation_def
      Airplane_def Airplane_tick_def handleCrash_def startPlaneLanding_def
      prioritizeLandingOtherPlane_id Let_def)

lemma first_frame_single:
  "airplanes (Simulation_tick_single (0, r) (Simulation args)) =
     [\<lparr>planeNumber = 1, fuel = int r + 99, fuelRate = 1, crashed = False, altitude = 80,
       landing = True, landed = False\<rparr>]"
  by (simp add: Simulation_tick_single_def scan_single_def forEach_def visit_single_def
      generateAirplane_def Simulation_def Airplane_def Airplane_tick_def handleCrash_def
      startPlaneLanding_single_def prioritizeLandingOtherPlane_single_def Let_def)

section \<open>What a trial depends on\<close>

text \<open>
  A frame reads its fuel draw only when its spawn draw is 0, and reads of the simulation
  its airplanes, its frame number and whether its control flag is truthy: two simulations
  that agree on these stay in agreement, frame after frame, whatever their run numbers.
  \<^verbatim>\<open>recordCrashes\<close> adds the number of crashed airplanes to the tally of the group.
\<close>

lemma scan_same:
  "airplanes s = airplanes s' \<Longrightarrow> truthy (control s) = truthy (control s') \<Longrightarrow>
   fst d = fst e \<Longrightarrow> (fst d = 0 \<longrightarrow> snd d = snd e) \<Longrightarrow> scan d s = scan e s'"
  by (simp add: scan_def airplanes_generateAirplane)

lemma Simulation_tick_same:
  assumes "airplanes s = airplanes s'" "frameNumber s = frameNumber s'"
    "truthy (control s) = truthy (control s')" "fst d = fst e" "fst d = 0 \<longrightarrow> snd d = snd e"
  shows "airplanes (Simulation_tick d s) = airplanes (Simulation_tick e s') \<and>
         frameNumber (Simulation_tick d s) = frameNumber (Simulation_tick e s') \<and>
         truthy (control (Simulation_tick d s)) = truthy (control (Simulation_tick e s'))"
proof -
  have sc: "scan d s = scan e s'" using assms by (intro scan_same) simp_all
  have g: "airplanes (generateAirplane d s) = airplanes (generateAirplane e s')"
    using assms by (simp add: airplanes_generateAirplane)
  have a: "admitted d s = admitted e s'" using assms(3) by (simp add: admitted_def sc)
  show ?thesis
    using assms(2,3) by (simp add: airplanes_Simulation_tick g a frameNumber_Simulation_tick control_Simulation_tick)
qed

lemma run_loop_same:
  "(\<forall>k < 10000. fst (rnd k) = fst (rnd' k) \<and> (fst (rnd k) = 0 \<longrightarrow> snd (rnd k) = snd (rnd' k))) \<Longrightarrow>
   airplanes s = airplanes s' \<Longrightarrow> frameNumber s = frameNumber s' \<Longrightarrow>
   truthy (control s) = truthy (control s') \<Longrightarrow>
     airplanes (run_loop rnd s) = airplanes (run_loop rnd' s') \<and>
     truthy (control (run_loop rnd s)) = truthy (control (run_loop rnd' s'))"
proof (induction rnd s arbitrary: s' rule: run_loop.induct)
  case (1 rnd s)
  show ?case
  proof (cases "frameNumber s < 10000")
    case True
    let ?t = "Simulation_tick (rnd (frameNumber s)) s"
    let ?t' = "Simulation_tick (rnd' (frameNumber s')) s'"
    have st: "airplanes ?t = airplanes ?t' \<and> frameNumber ?t = frameNumber ?t' \<and>
        truthy (control ?t) = truthy (control ?t')"
      using True "1.prems" by (intro Simulation_tick_same) simp_all
    have l: "run_loop rnd s = run_loop rnd ?t" using True by (subst run_loop.simps) simp
    have r: "run_loop rnd' s' = run_loop rnd' ?t'"
      using True "1.prems"(3) by (subst run_loop.simps) simp
    have "airplanes (run_loop rnd ?t) = airplanes (run_loop rnd' ?t') \<and>
        truthy (control (run_loop rnd ?t)) = truthy (control (run_loop rnd' ?t'))"
      using True "1.prems"(1) st by (intro "1.IH") simp_all
    then show ?thesis by (simp only: l r)
  next
    case False
    then have "run_loop rnd s = s" "run_loop rnd' s' = s'"
      using "1.prems"(3) by (subst run_loop.simps, simp)+
    then show ?thesis using "1.prems" by simp
  qed
qed

lemma control_run_loop: "control (run_loop rnd s) = control s"
proof (induction rnd s rule: run_loop.induct)
  case (1 rnd s)
  show ?case
  proof (cases "frameNumber s < 10000")
    case True
    have "run_loop rnd s = run_loop rnd (Simulation_tick (rnd (frameNumber s)) s)"
      using True by (subst run_loop.simps) simp
    then show ?thesis using "1.IH"[OF True] by (simp add: control_Simulation_tick)
  next
    case False
    then show ?thesis by (subst run_loop.simps) simp
  qed
qed

lemma count_crashed:
  "fold (\<lambda>airplane n. if crashed airplane then n + 1 else n) as k = k + length (filter crashed as)"
  by (induction as arbitrary: k) simp_all

lemma snd_run:
  "snd (run rnd s tally) =
     (if truthy (control s)
      then tally\<lparr>controls := controls tally + length (filter crashed (airplanes (run_loop rnd s)))\<rparr>
      else tally\<lparr>tests := tests tally + length (filter crashed (airplanes (run_loop rnd s)))\<rparr>)"
  by (simp add: run_def recordCrashes_def Let_def control_run_loop count_crashed)

lemma fst_run: "fst (run rnd s tally) = run_loop rnd s"
  by (simp add: run_def Let_def)

lemma frameNumber_run_loop: "frameNumber s \<le> 10000 \<Longrightarrow> frameNumber (run_loop rnd s) = 10000"
proof (induction rnd s rule: run_loop.induct)
  case (1 rnd s)
  show ?case
  proof (cases "frameNumber s < 10000")
    case True
    have "run_loop rnd s = run_loop rnd (Simulation_tick (rnd (frameNumber s)) s)"
      using True by (subst run_loop.simps) simp
    moreover have "frameNumber (run_loop rnd (Simulation_tick (rnd (frameNumber s)) s)) = 10000"
      using True by (intro "1.IH") (simp_all add: frameNumber_Simulation_tick)
    ultimately show ?thesis by simp
  next
    case False
    then show ?thesis using "1.prems" by (subst run_loop.simps) simp
  qed
qed

lemma Simulation_tick_other_fields:
  "framerate (Simulation_tick d s) = framerate s \<and> runNumber (Simulation_tick d s) = runNumber s"
  by (simp add: Simulation_tick_def Let_def prioritizeLandingOtherPlane_id startPlaneLanding_def)

lemma run_loop_other_fields:
  "framerate (run_loop rnd s) = framerate s \<and> runNumber (run_loop rnd s) = runNumber s"
proof (induction rnd s rule: run_loop.induct)
  case (1 rnd s)
  show ?case
  proof (cases "frameNumber s < 10000")
    case True
    have "run_loop rnd s = run_loop rnd (Simulation_tick (rnd (frameNumber s)) s)"
      using True by (subst run_loop.simps) simp
    then show ?thesis using "1.IH"[OF True] by (simp add: Simulation_tick_other_fields)
  next
    case False
    then have "run_loop rnd s = s" by (subst run_loop.simps) simp
    then show ?thesis by simp
  qed
qed

lemma run_loop_Simulation:
  "run_loop rnd (Simulation args) =
     \<lparr>airplanes = airplanes (run_loop rnd (Simulation args)), frameNumber = 10000, framerate = 60,
      runNumber = arg args 0, control = arg args 1\<rparr>"
proof -
  have "frameNumber (run_loop rnd (Simulation args)) = 10000"
    by (rule frameNumber_run_loop) (simp add: Simulation_def)
  then show ?thesis
    using run_loop_other_fields[of rnd "Simulation args"] control_run_loop[of rnd "Simulation args"]
    by (intro simulation.equality) (simp_all add: Simulation_def)
qed

section \<open>The best candidate\<close>

text \<open>
  \<^verbatim>\<open>lowestAirplane\<close> after the forEach, said of the airplanes as the forEach leaves them.
\<close>

lemma lowestIs_cong:
  "(\<And>i. i < n \<Longrightarrow> P i = Q i) \<Longrightarrow> (\<And>i. i < n \<Longrightarrow> f i = g i) \<Longrightarrow>
     lowestIs P f n r = lowestIs Q g n r"
  by (auto simp: lowestIs_def firstMin_def)

lemma advance_landed: "landed a \<Longrightarrow> landed (advance a)"
  by (simp add: advance_def)

lemma advance_touchdown:
  "plane_ok a \<Longrightarrow> \<not> landed a \<Longrightarrow> landed (advance a) \<Longrightarrow> landing a \<and> altitude a = 1"
  by (auto simp: plane_ok_def advance_def Airplane_tick_def handleLanding_def handleCrash_def Let_def
      split: if_splits)

lemma plane_ok_no_fuel: "plane_ok a \<Longrightarrow> crashed a \<Longrightarrow> fuel a < altitude a \<and> fuel a < 80"
  by (auto simp: plane_ok_def)

lemma scan_lowest_multi:
  assumes ok: "all_ok s"
    and nt: "\<forall>i < length (airplanes s). landing (airplanes s ! i) \<longrightarrow> altitude (airplanes s ! i) \<noteq> 1"
  shows "lowestIs (\<lambda>i. waiting (fst (scan d s) ! i) \<and> altitude (fst (scan d s) ! i) \<le> fuel (fst (scan d s) ! i))
     (\<lambda>i. fuel (fst (scan d s) ! i)) (length (fst (scan d s))) (lowestAirplane (snd (scan d s)))"
proof -
  let ?g = "airplanes (generateAirplane d s)"
  have okg: "\<forall>a \<in> set ?g. plane_ok a" using all_ok_generateAirplane[OF ok, of d] by (simp add: all_ok_def)
  have ntg: "\<not> (landing (?g ! i) \<and> altitude (?g ! i) = 1)" if "i < length ?g" for i
  proof (cases "i < length (airplanes s)")
    case True
    then show ?thesis using nt by (simp add: nth_generateAirplane)
  next
    case False
    then have "?g ! i = Airplane (length (airplanes s) + 1) (snd d)"
      using that by (auto simp: airplanes_generateAirplane nth_append split: if_splits)
    then show ?thesis by (simp add: Airplane_def)
  qed
  have eq: "cand ?g i =
      (waiting (fst (scan d s) ! i) \<and> altitude (fst (scan d s) ! i) \<le> fuel (fst (scan d s) ! i))"
    if i: "i < length ?g" for i
  proof -
    have p: "plane_ok (?g ! i)" using okg i by simp
    then have pa: "plane_ok (advance (?g ! i))" by (rule plane_ok_advance)
    have 1: "landed (advance (?g ! i)) = landed (?g ! i)"
      using advance_touchdown[OF p] ntg[OF i] advance_landed[of "?g ! i"] by blast
    have 2: "altitude (advance (?g ! i)) \<le> fuel (advance (?g ! i)) \<Longrightarrow> \<not> crashed (advance (?g ! i))"
      using plane_ok_no_fuel[OF pa] by auto
    show ?thesis using i 1 2 by (auto simp: cand_def waiting_def fst_scan)
  qed
  have "lowestIs (cand ?g) (\<lambda>i. fuel (advance (?g ! i))) (length ?g) (lowestAirplane (snd (scan d s)))"
    using snd_scan[of s d] by (simp add: locals_ok_def)
  also have "lowestIs (cand ?g) (\<lambda>i. fuel (advance (?g ! i))) (length ?g) (lowestAirplane (snd (scan d s))) =
    lowestIs (\<lambda>i. waiting (fst (scan d s) ! i) \<and> altitude (fst (scan d s) ! i) \<le> fuel (fst (scan d s) ! i))
     (\<lambda>i. fuel (fst (scan d s) ! i)) (length ?g) (lowestAirplane (snd (scan d s)))"
    by (rule lowestIs_cong) (simp_all add: eq fst_scan)
  finally show ?thesis by (simp add: fst_scan)
qed

lemma scan_lowest_single:
  assumes ok: "all_ok_single s"
  shows "lowestIs (\<lambda>i. \<not> landed (fst (scan_single d s) ! i) \<and> \<not> crashed (fst (scan_single d s) ! i) \<and>
                     80 \<le> fuel (fst (scan_single d s) ! i))
     (\<lambda>i. fuel (fst (scan_single d s) ! i)) (length (fst (scan_single d s)))
     (lowestAirplane_single (snd (scan_single d s)))"
proof -
  let ?g = "airplanes (generateAirplane d s)"
  have okg: "\<forall>a \<in> set ?g. plane_ok a"
    using all_ok_single_generateAirplane[OF ok, of d] by (simp add: all_ok_single_def plane_ok_single_def)
  have eq: "cand_single ?g i =
      (\<not> landed (fst (scan_single d s) ! i) \<and> \<not> crashed (fst (scan_single d s) ! i) \<and>
       80 \<le> fuel (fst (scan_single d s) ! i))"
    if i: "i < length ?g" for i
  proof -
    have "plane_ok (advance (?g ! i))" using okg i by (simp add: plane_ok_advance)
    then have "80 \<le> fuel (advance (?g ! i)) \<Longrightarrow> \<not> crashed (advance (?g ! i))"
      using plane_ok_no_fuel by fastforce
    then show ?thesis using i by (auto simp: cand_single_def fst_scan_single)
  qed
  have "lowestIs (cand_single ?g) (\<lambda>i. fuel (advance (?g ! i))) (length ?g)
      (lowestAirplane_single (snd (scan_single d s)))"
    using snd_scan_single[of d s] by (simp add: locals_single_ok_def)
  also have "lowestIs (cand_single ?g) (\<lambda>i. fuel (advance (?g ! i))) (length ?g)
      (lowestAirplane_single (snd (scan_single d s))) =
    lowestIs (\<lambda>i. \<not> landed (fst (scan_single d s) ! i) \<and> \<not> crashed (fst (scan_single d s) ! i) \<and>
                     80 \<le> fuel (fst (scan_single d s) ! i))
     (\<lambda>i. fuel (fst (scan_single d s) ! i)) (length ?g) (lowestAirplane_single (snd (scan_single d s)))"
    by (rule lowestIs_cong) (simp_all add: eq fst_scan_single)
  finally show ?thesis by (simp add: fst_scan_single)
qed

section \<open>How many airplanes land at once\<close>

text \<open>
  In src/airport.js the airplanes that are landing and have not landed are at most one in
  a control trial and at most six otherwise (\<open>landing_bound\<close>); the landing flags of
  landed airplanes are not counted here. In src/unnamed/part_000 at most one airplane has
  its landing flag set (\<open>one_landing_single\<close>).
\<close>

lemma finite_landingNow: "finite (landingNow as)"
  by (simp add: landingNow_def)

lemma length_filter_upt: "length (filter Q [0..<n]) = card {i. i < n \<and> Q i}"
proof -
  have "card (set (filter Q [0..<n])) = length (filter Q [0..<n])"
    by (rule distinct_card) simp
  moreover have "set (filter Q [0..<n]) = {i. i < n \<and> Q i}" by auto
  ultimately show ?thesis by simp
qed

lemma advance_keeps_landing:
  "plane_ok a \<Longrightarrow> landing (advance a) \<Longrightarrow> landing a \<and> (landed (advance a) = landed a)"
  by (auto simp: plane_ok_def advance_def Airplane_tick_def handleLanding_def handleCrash_def Let_def
      split: if_splits)

lemma landingNow_advance:
  assumes "\<forall>a \<in> set g. plane_ok a"
  shows "landingNow (map advance g) = {i. i < length g \<and> isLanding g i}"
proof -
  have "(landing (advance (g ! i)) \<and> \<not> landed (advance (g ! i))) = isLanding g i" if "i < length g" for i
  proof -
    have "plane_ok (g ! i)" using assms that by simp
    from advance_keeps_landing[OF this] advance_landed[of "g ! i"]
    show ?thesis by (auto simp: isLanding_def)
  qed
  then have "{i. i < length g \<and> landing (advance (g ! i)) \<and> \<not> landed (advance (g ! i))} =
      {i. i < length g \<and> isLanding g i}"
    by (intro Collect_cong conj_cong refl) simp
  moreover have "landingNow (map advance g) =
      {i. i < length g \<and> landing (advance (g ! i)) \<and> \<not> landed (advance (g ! i))}"
    unfolding landingNow_def by (intro Collect_cong) auto
  ultimately show ?thesis by simp
qed

lemma landingNow_scan_subset:
  assumes ok: "all_ok s"
  shows "landingNow (map advance (airplanes (generateAirplane d s))) \<subseteq> landingNow (airplanes s)"
proof
  fix i
  let ?g = "airplanes (generateAirplane d s)"
  assume m: "i \<in> landingNow (map advance ?g)"
  then have i: "i < length ?g" by (simp add: landingNow_def)
  from m have l: "landing (advance (?g ! i))" and n: "\<not> landed (advance (?g ! i))"
    using i by (simp_all add: landingNow_def)
  have "plane_ok (?g ! i)" using all_ok_generateAirplane[OF ok, of d] i by (simp add: all_ok_def)
  from advance_keeps_landing[OF this l] n have p: "landing (?g ! i)" "\<not> landed (?g ! i)" by simp_all
  have "i < length (airplanes s)"
  proof (rule ccontr)
    assume "\<not> i < length (airplanes s)"
    then have "?g ! i = Airplane (length (airplanes s) + 1) (snd d)"
      using i by (auto simp: airplanes_generateAirplane nth_append split: if_splits)
    then show False using p by (simp add: Airplane_def)
  qed
  then show "i \<in> landingNow (airplanes s)" using p by (simp add: landingNow_def nth_generateAirplane)
qed

lemma landingNow_setLanding:
  "landingNow (setLanding r True as) \<subseteq> (case r of Literal v \<Rightarrow> {} | Elem j \<Rightarrow> {j}) \<union> landingNow as"
proof (cases r)
  case (Literal v)
  then show ?thesis by simp
next
  case (Elem j)
  show ?thesis
  proof
    fix i assume "i \<in> landingNow (setLanding r True as)"
    then have "i < length as" "landing (as[j := (as ! j)\<lparr>landing := True\<rparr>] ! i)"
      "\<not> landed (as[j := (as ! j)\<lparr>landing := True\<rparr>] ! i)"
      using Elem by (simp_all add: landingNow_def)
    then show "i \<in> (case r of Literal v \<Rightarrow> {} | Elem j \<Rightarrow> {j}) \<union> landingNow as"
      using Elem by (cases "i = j") (simp_all add: landingNow_def)
  qed
qed

lemma card_insert_bound:
  assumes "finite A" and "B \<subseteq> {j} \<union> A"
  shows "card B \<le> Suc (card A)"
proof -
  have "card B \<le> card (insert j A)" using assms by (intro card_mono) simp_all
  also have "\<dots> \<le> Suc (card A)" using assms(1) by (simp add: card_insert_if)
  finally show ?thesis .
qed

lemma landing_bound_step:
  assumes ok: "all_ok s"
    and b: "card (landingNow (airplanes s)) \<le> (if truthy (control s) then 1 else 6)"
  shows "card (landingNow (airplanes (Simulation_tick d s))) \<le> (if truthy (control s) then 1 else 6)"
proof -
  let ?g = "airplanes (generateAirplane d s)"
  let ?post = "map advance ?g"
  let ?loc = "snd (scan d s)"
  have okg: "\<forall>a \<in> set ?g. plane_ok a" using all_ok_generateAirplane[OF ok, of d] by (simp add: all_ok_def)
  have sub: "landingNow ?post \<subseteq> landingNow (airplanes s)" by (rule landingNow_scan_subset[OF ok])
  then have c: "card (landingNow ?post) \<le> card (landingNow (airplanes s))"
    by (intro card_mono finite_landingNow)
  have lp: "length (landingPlanes ?loc) = card (landingNow ?post)"
    using snd_scan[of s d] by (simp add: locals_ok_def length_filter_upt landingNow_advance[OF okg])
  have pl: "planeLanding ?loc = (landingPlanes ?loc \<noteq> [])"
    and rw: "runways ?loc = 6 - (if truthy (control s) then 0 else int (length (landingPlanes ?loc)))"
    using snd_scan[of s d] by (simp_all add: locals_ok_def)
  show ?thesis
  proof (cases "admitted d s")
    case (Literal v)
    then have "airplanes (Simulation_tick d s) = ?post" by (simp add: airplanes_Simulation_tick)
    then show ?thesis using c b by simp
  next
    case (Elem j)
    have "landingNow (airplanes (Simulation_tick d s)) \<subseteq> {j} \<union> landingNow ?post"
      using landingNow_setLanding[of "Elem j" ?post] Elem
      by (auto simp: airplanes_Simulation_tick Let_def)
    then have le: "card (landingNow (airplanes (Simulation_tick d s))) \<le> Suc (card (landingNow ?post))"
      by (intro card_insert_bound finite_landingNow)
    show ?thesis
    proof (cases "truthy (control s)")
      case True
      then have "\<not> planeLanding ?loc" using Elem by (auto simp: admitted_def Let_def split: if_splits)
      then have "card (landingNow ?post) = 0" using pl lp by simp
      then show ?thesis using le True by simp
    next
      case False
      then have "runways ?loc \<noteq> 0" using Elem by (auto simp: admitted_def Let_def split: if_splits)
      then have "card (landingNow ?post) \<noteq> 6" using rw lp False by simp
      moreover have "card (landingNow ?post) \<le> 6" using c b False by simp
      ultimately show ?thesis using le False by simp
    qed
  qed
qed

lemma landing_bound_frames:
  "all_ok s \<Longrightarrow> card (landingNow (airplanes s)) \<le> (if truthy (control s) then 1 else 6) \<Longrightarrow>
     card (landingNow (airplanes (frames ds s))) \<le> (if truthy (control s) then 1 else 6)"
proof (induction ds arbitrary: s)
  case Nil
  then show ?case by simp
next
  case (Cons d ds)
  have "card (landingNow (airplanes (frames ds (Simulation_tick d s))))
      \<le> (if truthy (control (Simulation_tick d s)) then 1 else 6)"
    using Cons.prems
    by (intro Cons.IH all_ok_Simulation_tick) (simp_all add: landing_bound_step control_Simulation_tick)
  then show ?case by (simp add: control_Simulation_tick)
qed

lemma landing_bound:
  "card (landingNow (airplanes (frames ds (Simulation args)))) \<le> (if truthy (arg args 1) then 1 else 6)"
  using landing_bound_frames[OF all_ok_Simulation, of args ds] by (simp add: Simulation_def landingNow_def)

lemma finite_landingFlags: "finite (landingFlags as)"
  by (simp add: landingFlags_def)

lemma landingFlags_scan_subset:
  assumes ok: "all_ok_single s"
  shows "landingFlags (map advance (airplanes (generateAirplane d s))) \<subseteq> landingFlags (airplanes s)"
proof
  fix i
  let ?g = "airplanes (generateAirplane d s)"
  assume m: "i \<in> landingFlags (map advance ?g)"
  then have i: "i < length ?g" by (simp add: landingFlags_def)
  from m have l: "landing (advance (?g ! i))" using i by (simp add: landingFlags_def)
  have "plane_ok (?g ! i)"
    using all_ok_single_generateAirplane[OF ok, of d] i by (simp add: all_ok_single_def plane_ok_single_def)
  from advance_keeps_landing[OF this l] have p: "landing (?g ! i)" by simp
  have "i < length (airplanes s)"
  proof (rule ccontr)
    assume "\<not> i < length (airplanes s)"
    then have "?g ! i = Airplane (length (airplanes s) + 1) (snd d)"
      using i by (auto simp: airplanes_generateAirplane nth_append split: if_splits)
    then show False using p by (simp add: Airplane_def)
  qed
  then show "i \<in> landingFlags (airplanes s)" using p by (simp add: landingFlags_def nth_generateAirplane)
qed

lemma landingFlags_setLanding_True:
  "landingFlags (setLanding r True as) \<subseteq> (case r of Literal v \<Rightarrow> {} | Elem j \<Rightarrow> {j}) \<union> landingFlags as"
proof (cases r)
  case (Literal v)
  then show ?thesis by simp
next
  case (Elem j)
  show ?thesis
  proof
    fix i assume "i \<in> landingFlags (setLanding r True as)"
    then have "i < length as" "landing (as[j := (as ! j)\<lparr>landing := True\<rparr>] ! i)"
      using Elem by (simp_all add: landingFlags_def)
    then show "i \<in> (case r of Literal v \<Rightarrow> {} | Elem j \<Rightarrow> {j}) \<union> landingFlags as"
      using Elem by (cases "i = j") (simp_all add: landingFlags_def)
  qed
qed

lemma landingFlags_setLanding_False:
  "landingFlags (setLanding (Elem k) False as) = landingFlags as - {k}"
proof -
  have "(i < length as \<and> landing (as[k := (as ! k)\<lparr>landing := False\<rparr>] ! i)) =
        (i < length as \<and> landing (as ! i) \<and> i \<noteq> k)" for i
    by (cases "i = k") auto
  then show ?thesis by (auto simp: landingFlags_def)
qed

lemma card_le_one_subset: "B \<subseteq> (case r of Literal v \<Rightarrow> {} | Elem j \<Rightarrow> {j}) \<union> {} \<Longrightarrow> card B \<le> 1"
proof (cases r)
  case (Literal v)
  assume "B \<subseteq> (case r of Literal v \<Rightarrow> {} | Elem j \<Rightarrow> {j}) \<union> {}"
  then show ?thesis using Literal by simp
next
  case (Elem j)
  assume "B \<subseteq> (case r of Literal v \<Rightarrow> {} | Elem j \<Rightarrow> {j}) \<union> {}"
  then have "B \<subseteq> {j}" using Elem by simp
  then have "card B \<le> card {j}" by (intro card_mono) simp_all
  then show ?thesis by simp
qed

lemma one_landing_step:
  assumes ok: "all_ok_single s" and b: "card (landingFlags (airplanes s)) \<le> 1"
  shows "card (landingFlags (airplanes (Simulation_tick_single d s))) \<le> 1"
proof -
  let ?g = "airplanes (generateAirplane d s)"
  define post where "post = map advance ?g"
  define loc where "loc = snd (scan_single d s)"
  define as2 where "as2 = admit_single loc post"
  have sub: "landingFlags post \<subseteq> landingFlags (airplanes s)"
    unfolding post_def by (rule landingFlags_scan_subset[OF ok])
  then have c: "card (landingFlags post) \<le> 1"
    using b card_mono[OF finite_landingFlags sub] by simp
  have pl: "planeLanding_single loc = (landingFlags post \<noteq> {})"
    using snd_scan_single[of d s] by (auto simp: locals_single_ok_def loc_def post_def landingFlags_def)
  have c2: "card (landingFlags as2) \<le> 1"
  proof (cases "planeLanding_single loc")
    case True
    then show ?thesis using c by (simp add: as2_def admit_single_def)
  next
    case False
    then have "landingFlags post = {}" using pl by simp
    then have "landingFlags as2 \<subseteq> (case lowestAirplane_single loc of Literal v \<Rightarrow> {} | Elem j \<Rightarrow> {j}) \<union> {}"
      using landingFlags_setLanding_True[of "lowestAirplane_single loc" post]
      by (auto simp: as2_def admit_single_def)
    then show ?thesis by (rule card_le_one_subset)
  qed
  have c3: "card (landingFlags (setLanding (lowestAirplane_single loc) True (setLanding (landingPlane loc) False as2))) \<le> 1"
    if h: "hasPlaneNumber as2 (landingPlane loc)"
  proof -
    from h obtain k where k: "landingPlane loc = Elem k" by (cases "landingPlane loc") simp_all
    from scan_single_landingPlane[of d s k] k
    have kk: "k < length ?g" "landing (post ! k)" by (simp_all add: loc_def post_def)
    then have kin: "k \<in> landingFlags post" by (simp add: landingFlags_def post_def)
    then have "planeLanding_single loc" using pl by auto
    then have a2: "as2 = post" by (simp add: as2_def admit_single_def)
    have "landingFlags post \<subseteq> {k}"
    proof
      fix i assume i: "i \<in> landingFlags post"
      have "card {i, k} \<le> card (landingFlags post)"
        using i kin by (intro card_mono finite_landingFlags) simp
      then have "card {i, k} \<le> 1" using c by simp
      then show "i \<in> {k}" by (cases "i = k") simp_all
    qed
    then have "landingFlags (setLanding (landingPlane loc) False as2) = {}"
      using k a2 by (auto simp: landingFlags_setLanding_False simp del: setLanding.simps)
    then have "landingFlags (setLanding (lowestAirplane_single loc) True (setLanding (landingPlane loc) False as2))
        \<subseteq> (case lowestAirplane_single loc of Literal v \<Rightarrow> {} | Elem j \<Rightarrow> {j}) \<union> {}"
      using landingFlags_setLanding_True[of "lowestAirplane_single loc" "setLanding (landingPlane loc) False as2"]
      by simp
    then show ?thesis by (rule card_le_one_subset)
  qed
  have "airplanes (Simulation_tick_single d s) = as2 \<or>
     (hasPlaneNumber as2 (landingPlane loc) \<and>
      airplanes (Simulation_tick_single d s) =
        setLanding (lowestAirplane_single loc) True (setLanding (landingPlane loc) False as2))"
    unfolding airplanes_Simulation_tick_single Let_def as2_def loc_def post_def by simp
  then show ?thesis using c2 c3 by auto
qed

lemma one_landing_frames:
  "all_ok_single s \<Longrightarrow> card (landingFlags (airplanes s)) \<le> 1 \<Longrightarrow>
     card (landingFlags (airplanes (frames_single ds s))) \<le> 1"
proof (induction ds arbitrary: s)
  case Nil
  then show ?case by simp
next
  case (Cons d ds)
  have "card (landingFlags (airplanes (frames_single ds (Simulation_tick_single d s)))) \<le> 1"
    using Cons.prems by (intro Cons.IH all_ok_single_Simulation_tick one_landing_step)
  then show ?case by simp
qed

lemma one_landing_single:
  "card (landingFlags (airplanes (frames_single ds (Simulation args)))) \<le> 1"
  using one_landing_frames[OF all_ok_single_Simulation, of args ds] by (simp add: Simulation_def landingFlags_def)

section \<open>Claims\<close>

subsection \<open>C1\<close>

text \<open>
  C1 (src/airport.js, prioritizeLandingOtherPlane): the code does not do what the claim
  says. The loop that looks for the landing airplane with the most fuel starts from the
  \<^verbatim>\<open>{ fuel: -Infinity }\<close> literal and replaces it when
  \<^verbatim>\<open>mostFueledPlane.fuel > landingPlanes[i].fuel\<close>, which is never the case; the test
  \<^verbatim>\<open>lowestAirplane.fuel < mostFueledPlane.fuel\<close> that follows is then against
  \<^verbatim>\<open>-Infinity\<close>, and the method changes nothing, whatever its arguments.

  A run that shows it: six airplanes enter with 999 liters on frames 1 to 6 and are
  admitted one per frame; a seventh enters with 100 liters on frame 7 of a trial that
  reprioritizes. On that frame no runway is left, the best candidate is the seventh
  airplane with 99 liters, and the landing airplane with the most fuel is the sixth (997
  liters at altitude 79, so at least 81 + 79). The claim wants the sixth halted and the
  seventh landing when the frame ends; every landing flag is as it was.
\<close>

theorem C1_preemption_never_fires:
  "prioritizeLandingOtherPlane lowest landingPs s = s \<and>
   snd (scan (0, 0)
      (frames [(0, 899), (0, 899), (0, 899), (0, 899), (0, 899), (0, 899)]
         (Simulation [Number 1, Boolean False]))) =
     \<lparr>runways = 0, planeLanding = True, landingPlanes = [0, 1, 2, 3, 4, 5],
      lowestAirplane = Elem 6\<rparr> \<and>
   map (\<lambda>a. (fuel a, altitude a, landing a))
     (airplanes (frames [(0, 899), (0, 899), (0, 899), (0, 899), (0, 899), (0, 899), (0, 0)]
        (Simulation [Number 1, Boolean False]))) =
     [(992, 74, True), (993, 75, True), (994, 76, True), (995, 77, True), (996, 78, True),
      (997, 79, True), (99, 80, False)]"
proof -
  have 1: "prioritizeLandingOtherPlane lowest landingPs s = s"
    by (rule prioritizeLandingOtherPlane_id)
  have 2: "snd (scan (0, 0)
      (frames [(0, 899), (0, 899), (0, 899), (0, 899), (0, 899), (0, 899)]
         (Simulation [Number 1, Boolean False]))) =
     \<lparr>runways = 0, planeLanding = True, landingPlanes = [0, 1, 2, 3, 4, 5],
      lowestAirplane = Elem 6\<rparr>"
    by code_simp
  have 3: "map (\<lambda>a. (fuel a, altitude a, landing a))
     (airplanes (frames [(0, 899), (0, 899), (0, 899), (0, 899), (0, 899), (0, 899), (0, 0)]
        (Simulation [Number 1, Boolean False]))) =
     [(992, 74, True), (993, 75, True), (994, 76, True), (995, 77, True), (996, 78, True),
      (997, 79, True), (99, 80, False)]"
    by code_simp
  show ?thesis using 1 2 3 by (intro conjI)
qed

subsection \<open>C2\<close>

text \<open>
  C2: the code does not choose the best candidate the claim describes, the first airplane
  with the least fuel among the waiting airplanes whose fuel is at least their altitude.

  src/unnamed/part_000 tests \<^verbatim>\<open>airplane.fuel >= 80\<close> where the claim, the header comment
  of the file (an airplane is halted only with 81 liters plus its altitude, to start
  landing again later) and src/airport.js have the altitude. In the trial of
  \<open>halted_waits\<close> the airplane halted on frame 71 waits at altitude 10. On frame 121 it
  has 79 liters, is the only waiting airplane, and \<^verbatim>\<open>lowestAirplane\<close> is still the
  \<^verbatim>\<open>{ fuel: Infinity }\<close> literal. On frame 152 the other airplane has landed, no
  airplane is landing, it has 48 liters, and \<^verbatim>\<open>lowestAirplane\<close> is the literal again:
  nothing is admitted. After frame 200 it has crashed.

  src/airport.js, on a frame with a touchdown: on frame 81 of the control trial with
  arrivals on frames 1 and 2 the first airplane touches down with 19 liters, the second
  waits with 919 liters at altitude 80, and \<^verbatim>\<open>lowestAirplane\<close> is the first, which has
  landed. On other frames, and in every state a trial reaches, the file does what the
  claim says (\<open>scan_lowest_multi\<close>).
\<close>

theorem C2_halted_airplane_is_never_a_candidate:
  "snd (scan_single (1, 0) (frames_single halted_waits (Simulation [Number 1, Boolean False]))) =
     \<lparr>planeLanding_single = True, landingPlane = Elem 1,
      lowestAirplane_single = Literal (Some PosInfinity)\<rparr> \<and>
   map (\<lambda>a. (fuel a, altitude a, landing a, landed a, crashed a))
     (fst (scan_single (1, 0) (frames_single halted_waits (Simulation [Number 1, Boolean False])))) =
     [(79, 10, False, False, False), (49, 30, True, False, False)] \<and>
   snd (scan_single (1, 0)
     (frames_single (halted_waits @ replicate 31 (1, 0)) (Simulation [Number 1, Boolean False]))) =
     \<lparr>planeLanding_single = False, landingPlane = Literal None,
      lowestAirplane_single = Literal (Some PosInfinity)\<rparr> \<and>
   map (\<lambda>a. (fuel a, altitude a, landing a, landed a, crashed a))
     (airplanes (frames_single (halted_waits @ replicate 32 (1, 0)) (Simulation [Number 1, Boolean False]))) =
     [(48, 10, False, False, False), (19, 0, False, True, False)] \<and>
   map (\<lambda>a. (fuel a, altitude a, landing a, landed a, crashed a))
     (airplanes (frames_single (halted_waits @ replicate 80 (1, 0)) (Simulation [Number 1, Boolean False]))) =
     [(0, 10, False, False, True), (19, 0, False, True, False)] \<and>
   snd (scan (1, 0) (frames ((0, 0) # (0, 899) # replicate 78 (1, 0)) (Simulation [Number 2, Boolean True]))) =
     \<lparr>runways = 6, planeLanding = False, landingPlanes = [], lowestAirplane = Elem 0\<rparr> \<and>
   map (\<lambda>a. (fuel a, altitude a, landing a, landed a, crashed a))
     (fst (scan (1, 0) (frames ((0, 0) # (0, 899) # replicate 78 (1, 0)) (Simulation [Number 2, Boolean True])))) =
     [(19, 0, False, True, False), (919, 80, False, False, False)]"
proof -
  have 1: "snd (scan_single (1, 0) (frames_single halted_waits (Simulation [Number 1, Boolean False]))) =
     \<lparr>planeLanding_single = True, landingPlane = Elem 1,
      lowestAirplane_single = Literal (Some PosInfinity)\<rparr>"
    by code_simp
  have 2: "map (\<lambda>a. (fuel a, altitude a, landing a, landed a, crashed a))
     (fst (scan_single (1, 0) (frames_single halted_waits (Simulation [Number 1, Boolean False])))) =
     [(79, 10, False, False, False), (49, 30, True, False, False)]"
    by code_simp
  have 3: "snd (scan_single (1, 0)
     (frames_single (halted_waits @ replicate 31 (1, 0)) (Simulation [Number 1, Boolean False]))) =
     \<lparr>planeLanding_single = False, landingPlane = Literal None,
      lowestAirplane_single = Literal (Some PosInfinity)\<rparr>"
    by code_simp
  have 4: "map (\<lambda>a. (fuel a, altitude a, landing a, landed a, crashed a))
     (airplanes (frames_single (halted_waits @ replicate 32 (1, 0)) (Simulation [Number 1, Boolean False]))) =
     [(48, 10, False, False, False), (19, 0, False, True, False)]"
    by code_simp
  have 5: "map (\<lambda>a. (fuel a, altitude a, landing a, landed a, crashed a))
     (airplanes (frames_single (halted_waits @ replicate 80 (1, 0)) (Simulation [Number 1, Boolean False]))) =
     [(0, 10, False, False, True), (19, 0, False, True, False)]"
    by code_simp
  have 6: "snd (scan (1, 0) (frames ((0, 0) # (0, 899) # replicate 78 (1, 0)) (Simulation [Number 2, Boolean True]))) =
     \<lparr>runways = 6, planeLanding = False, landingPlanes = [], lowestAirplane = Elem 0\<rparr>"
    by code_simp
  have 7: "map (\<lambda>a. (fuel a, altitude a, landing a, landed a, crashed a))
     (fst (scan (1, 0) (frames ((0, 0) # (0, 899) # replicate 78 (1, 0)) (Simulation [Number 2, Boolean True])))) =
     [(19, 0, False, True, False), (919, 80, False, False, False)]"
    by code_simp
  show ?thesis using 1 2 3 4 5 6 7 by (intro conjI)
qed

subsection \<open>C3\<close>

text \<open>
  C3 (src/airport.js): the code breaks the bound on the airplanes with
  \<^verbatim>\<open>landing = true\<close>, one in a control trial. A control trial,
  \<^verbatim>\<open>new Simulation(2, true)\<close>: an airplane with 100 liters enters on frame 1 and one with 999 liters on frame 2. After frame 80 the first is
  landing and the second waits. On frame 81 the first touches down (its tick clears
  \<^verbatim>\<open>landing\<close> and sets \<^verbatim>\<open>landed\<close>); in the same callback it passes the test for
  \<^verbatim>\<open>lowestAirplane\<close>, since its 19 liters are at least its altitude 0, and
  \<^verbatim>\<open>startPlaneLanding\<close> sets its \<^verbatim>\<open>landing\<close> flag again. It is skipped from then on and
  keeps the flag. On frame 82 the second airplane is admitted: two airplanes have
  \<^verbatim>\<open>landing = true\<close> in a control trial. The airplanes that are landing and have not
  landed stay within the bound (\<open>landing_bound\<close>), and so do the landing flags of the
  file with one runway (\<open>one_landing_single\<close>).
\<close>

theorem C3_landed_airplane_keeps_landing_flag:
  "truthy (control (frames two_arrivals (Simulation [Number 2, Boolean True]))) \<and>
   map (\<lambda>a. (landing a, landed a))
     (airplanes (frames ((0, 0) # (0, 899) # replicate 78 (1, 0)) (Simulation [Number 2, Boolean True]))) =
     [(True, False), (False, False)] \<and>
   map (\<lambda>a. (landing a, landed a))
     (airplanes (frames ((0, 0) # (0, 899) # replicate 79 (1, 0)) (Simulation [Number 2, Boolean True]))) =
     [(True, True), (False, False)] \<and>
   map (\<lambda>a. (landing a, landed a))
     (airplanes (frames two_arrivals (Simulation [Number 2, Boolean True]))) =
     [(True, True), (True, False)] \<and>
   length (filter landing (airplanes (frames two_arrivals (Simulation [Number 2, Boolean True])))) = 2"
  by code_simp

subsection \<open>C4\<close>

text \<open>
  C4 (both files). In every state a trial reaches, no airplane is both landed and crashed,
  and an airplane that is landed or crashed there is the same record, field by field,
  after any further frames \<open>es\<close>.
\<close>

theorem C4_terminal_airplanes_are_frozen:
  "(\<forall>i < length (airplanes (frames ds (Simulation args))).
      \<not> (landed (airplanes (frames ds (Simulation args)) ! i) \<and>
         crashed (airplanes (frames ds (Simulation args)) ! i)) \<and>
      (landed (airplanes (frames ds (Simulation args)) ! i) \<or>
       crashed (airplanes (frames ds (Simulation args)) ! i) \<longrightarrow>
       airplanes (frames (ds @ es) (Simulation args)) ! i = airplanes (frames ds (Simulation args)) ! i)) \<and>
   (\<forall>i < length (airplanes (frames_single ds (Simulation args))).
      \<not> (landed (airplanes (frames_single ds (Simulation args)) ! i) \<and>
         crashed (airplanes (frames_single ds (Simulation args)) ! i)) \<and>
      (landed (airplanes (frames_single ds (Simulation args)) ! i) \<or>
       crashed (airplanes (frames_single ds (Simulation args)) ! i) \<longrightarrow>
       airplanes (frames_single (ds @ es) (Simulation args)) ! i =
         airplanes (frames_single ds (Simulation args)) ! i))"
proof -
  let ?m = "frames ds (Simulation args)" and ?s = "frames_single ds (Simulation args)"
  have m: "all_ok ?m" by (rule reach_ok)
  have s: "all_ok_single ?s" by (rule reach_single_ok)
  have 1: "\<not> (landed (airplanes ?m ! i) \<and> crashed (airplanes ?m ! i))" if "i < length (airplanes ?m)" for i
    using m that by (simp add: all_ok_def plane_ok_terminal)
  have 2: "\<not> (landed (airplanes ?s ! i) \<and> crashed (airplanes ?s ! i))" if "i < length (airplanes ?s)" for i
    using s that by (simp add: all_ok_single_def plane_ok_single_def plane_ok_terminal)
  have 3: "airplanes (frames (ds @ es) (Simulation args)) ! i = airplanes ?m ! i"
    if "i < length (airplanes ?m)" "landed (airplanes ?m ! i) \<or> crashed (airplanes ?m ! i)" for i
    using frozen_frames[OF m that] by (simp add: frames_append)
  have 4: "airplanes (frames_single (ds @ es) (Simulation args)) ! i = airplanes ?s ! i"
    if "i < length (airplanes ?s)" "landed (airplanes ?s ! i) \<or> crashed (airplanes ?s ! i)" for i
    using frozen_frames_single[OF s that] by (simp add: frames_single_append)
  show ?thesis using 1 2 3 4 by blast
qed

text \<open>
  An instance: the airplane that landed on frame 81 is unchanged three frames after
  frame 82, one of which brings a new arrival.
\<close>

theorem C4_witness:
  "landed (airplanes (frames two_arrivals (Simulation [Number 2, Boolean True])) ! 0) \<and>
   \<not> crashed (airplanes (frames two_arrivals (Simulation [Number 2, Boolean True])) ! 0) \<and>
   airplanes (frames (two_arrivals @ [(1, 0), (0, 5), (1, 0)]) (Simulation [Number 2, Boolean True])) ! 0 =
     airplanes (frames two_arrivals (Simulation [Number 2, Boolean True])) ! 0 \<and>
   landed (airplanes (frames_single two_arrivals (Simulation [Number 2, Boolean True])) ! 0) \<and>
   \<not> crashed (airplanes (frames_single two_arrivals (Simulation [Number 2, Boolean True])) ! 0) \<and>
   airplanes (frames_single (two_arrivals @ [(1, 0), (0, 5), (1, 0)]) (Simulation [Number 2, Boolean True])) ! 0 =
     airplanes (frames_single two_arrivals (Simulation [Number 2, Boolean True])) ! 0"
proof -
  let ?m = "airplanes (frames two_arrivals (Simulation [Number 2, Boolean True]))"
  let ?s = "airplanes (frames_single two_arrivals (Simulation [Number 2, Boolean True]))"
  note c = C4_terminal_airplanes_are_frozen[of two_arrivals "[Number 2, Boolean True]" "[(1, 0), (0, 5), (1, 0)]"]
  have m: "0 < length ?m" "landed (?m ! 0)" by (simp_all add: two_arrivals_multi)
  have s: "0 < length ?s" "landed (?s ! 0)" by (simp_all add: two_arrivals_single)
  from c m s show ?thesis by blast
qed

subsection \<open>C5\<close>

text \<open>
  C5 (both files), as the code has it. \<^verbatim>\<open>Airplane.tick\<close> does nothing to a crashed
  airplane; otherwise it takes 1 liter of fuel; a landing airplane also loses 1 of altitude
  and, when the altitude reaches exactly 0, stops landing and is landed; a waiting airplane
  is crashed exactly when the fuel left is 0 or less. A frame of \<^verbatim>\<open>Simulation.tick\<close>
  calls it once for every airplane that has not landed and skips the landed ones
  (\<^verbatim>\<open>if (!airplane.landed)\<close>); whatever else the frame changes is a landing flag.
\<close>

theorem C5_airplane_tick:
  "(crashed a \<longrightarrow> Airplane_tick a = a) \<and>
   (\<not> crashed a \<and> fuelRate a = 1 \<longrightarrow>
      fuel (Airplane_tick a) = fuel a - 1 \<and>
      (landing a \<longrightarrow>
         altitude (Airplane_tick a) = altitude a - 1 \<and> \<not> crashed (Airplane_tick a) \<and>
         (altitude a - 1 = 0 \<longrightarrow> \<not> landing (Airplane_tick a) \<and> landed (Airplane_tick a)) \<and>
         (altitude a - 1 \<noteq> 0 \<longrightarrow> landing (Airplane_tick a) \<and> landed (Airplane_tick a) = landed a)) \<and>
      (\<not> landing a \<longrightarrow>
         crashed (Airplane_tick a) = (fuel a - 1 \<le> 0) \<and> altitude (Airplane_tick a) = altitude a \<and>
         \<not> landing (Airplane_tick a) \<and> landed (Airplane_tick a) = landed a)) \<and>
   (\<forall>i < length (airplanes s).
      sameButLanding
        (if landed (airplanes s ! i) then airplanes s ! i else Airplane_tick (airplanes s ! i))
        (airplanes (Simulation_tick d s) ! i) \<and>
      sameButLanding
        (if landed (airplanes s ! i) then airplanes s ! i else Airplane_tick (airplanes s ! i))
        (airplanes (Simulation_tick_single d s) ! i))"
proof -
  have 1: "crashed a \<longrightarrow> Airplane_tick a = a" by (simp add: Airplane_tick_crashed)
  have 2: "\<not> crashed a \<and> fuelRate a = 1 \<longrightarrow>
      fuel (Airplane_tick a) = fuel a - 1 \<and>
      (landing a \<longrightarrow>
         altitude (Airplane_tick a) = altitude a - 1 \<and> \<not> crashed (Airplane_tick a) \<and>
         (altitude a - 1 = 0 \<longrightarrow> \<not> landing (Airplane_tick a) \<and> landed (Airplane_tick a)) \<and>
         (altitude a - 1 \<noteq> 0 \<longrightarrow> landing (Airplane_tick a) \<and> landed (Airplane_tick a) = landed a)) \<and>
      (\<not> landing a \<longrightarrow>
         crashed (Airplane_tick a) = (fuel a - 1 \<le> 0) \<and> altitude (Airplane_tick a) = altitude a \<and>
         \<not> landing (Airplane_tick a) \<and> landed (Airplane_tick a) = landed a)"
    by (cases "landing a") (simp_all add: Airplane_tick_landing Airplane_tick_waiting)
  have 3: "sameButLanding
        (if landed (airplanes s ! i) then airplanes s ! i else Airplane_tick (airplanes s ! i))
        (airplanes (Simulation_tick d s) ! i) \<and>
      sameButLanding
        (if landed (airplanes s ! i) then airplanes s ! i else Airplane_tick (airplanes s ! i))
        (airplanes (Simulation_tick_single d s) ! i)" if "i < length (airplanes s)" for i
    using nth_tick_advance[OF that, of d] by (simp add: advance_def)
  show ?thesis using 1 2 3 by blast
qed

text \<open>
  An instance: touchdown, a crash, a crashed airplane, and on frame 83 the airplane that
  has landed (skipped) and the one that has not (ticked).
\<close>

theorem C5_witness:
  "\<not> crashed (Airplane 1 0\<lparr>landing := True, altitude := 1\<rparr>) \<and>
   fuel (Airplane_tick (Airplane 1 0\<lparr>landing := True, altitude := 1\<rparr>)) = 99 \<and>
   altitude (Airplane_tick (Airplane 1 0\<lparr>landing := True, altitude := 1\<rparr>)) = 0 \<and>
   \<not> landing (Airplane_tick (Airplane 1 0\<lparr>landing := True, altitude := 1\<rparr>)) \<and>
   landed (Airplane_tick (Airplane 1 0\<lparr>landing := True, altitude := 1\<rparr>)) \<and>
   \<not> landing (Airplane 1 0\<lparr>fuel := 1\<rparr>) \<and>
   crashed (Airplane_tick (Airplane 1 0\<lparr>fuel := 1\<rparr>)) \<and>
   Airplane_tick (Airplane 1 0\<lparr>crashed := True\<rparr>) = Airplane 1 0\<lparr>crashed := True\<rparr> \<and>
   sameButLanding
     (airplanes (frames two_arrivals (Simulation [Number 2, Boolean True])) ! 0)
     (airplanes (Simulation_tick (1, 0) (frames two_arrivals (Simulation [Number 2, Boolean True]))) ! 0) \<and>
   sameButLanding
     (Airplane_tick (airplanes (frames_single two_arrivals (Simulation [Number 2, Boolean True])) ! 1))
     (airplanes (Simulation_tick_single (1, 0)
        (frames_single two_arrivals (Simulation [Number 2, Boolean True]))) ! 1)"
proof -
  let ?s = "frames two_arrivals (Simulation [Number 2, Boolean True])"
  let ?t = "frames_single two_arrivals (Simulation [Number 2, Boolean True])"
  let ?a = "Airplane 1 0\<lparr>landing := True, altitude := 1\<rparr>"
  let ?b = "Airplane 1 0\<lparr>fuel := 1\<rparr>"
  let ?c = "Airplane 1 0\<lparr>crashed := True\<rparr>"
  have a: "\<not> crashed ?a" "fuelRate ?a = 1" "landing ?a" "altitude ?a - 1 = 0" "fuel ?a - 1 = 99"
    by (simp_all add: Airplane_def)
  have b: "\<not> crashed ?b" "fuelRate ?b = 1" "\<not> landing ?b" "fuel ?b - 1 \<le> 0"
    by (simp_all add: Airplane_def)
  have c: "crashed ?c" by simp
  have s: "0 < length (airplanes ?s)" "landed (airplanes ?s ! 0)"
    by (simp_all add: two_arrivals_multi)
  have t: "1 < length (airplanes ?t)" "\<not> landed (airplanes ?t ! 1)"
    by (simp_all add: two_arrivals_single)
  note ta = C5_airplane_tick[of ?a ?s "(1, 0)", THEN conjunct2, THEN conjunct1, rule_format, OF conjI[OF a(1) a(2)]]
  note tb = C5_airplane_tick[of ?b ?s "(1, 0)", THEN conjunct2, THEN conjunct1, rule_format, OF conjI[OF b(1) b(2)]]
  note tc = C5_airplane_tick[of ?c ?s "(1, 0)", THEN conjunct1, rule_format]
  note ts = C5_airplane_tick[of ?c ?s "(1, 0)", THEN conjunct2, THEN conjunct2, rule_format]
  note tt = C5_airplane_tick[of ?c ?t "(1, 0)", THEN conjunct2, THEN conjunct2, rule_format]
  have 1: "fuel (Airplane_tick ?a) = 99" using ta a(5) by simp
  have "altitude (Airplane_tick ?a) = altitude ?a - 1 \<and> \<not> landing (Airplane_tick ?a) \<and> landed (Airplane_tick ?a)"
    using ta a(3) a(4) by blast
  then have 2: "altitude (Airplane_tick ?a) = 0" and 3: "\<not> landing (Airplane_tick ?a)"
    and 4: "landed (Airplane_tick ?a)" using a(4) by simp_all
  have 5: "crashed (Airplane_tick ?b)" using tb b(3) b(4) by blast
  have 6: "Airplane_tick ?c = ?c" using tc[OF c] .
  have 7: "sameButLanding (airplanes ?s ! 0) (airplanes (Simulation_tick (1, 0) ?s) ! 0)"
    using ts[OF s(1)] s(2) by simp
  have 8: "sameButLanding (Airplane_tick (airplanes ?t ! 1)) (airplanes (Simulation_tick_single (1, 0) ?t) ! 1)"
    using tt[OF t(1)] t(2) by simp
  show ?thesis using a(1) b(3) 1 2 3 4 5 6 7 8 by (intro conjI)
qed

text \<open>
  The claim as stated has the tick invoked for every airplane on every frame, so that an
  airplane that is not crashed loses 1 liter. The airplane that landed on frame 81 is not
  crashed and keeps its 19 liters on frame 83.
\<close>

theorem C5_counterexample:
  "landed (airplanes (frames two_arrivals (Simulation [Number 2, Boolean True])) ! 0) \<and>
   \<not> crashed (airplanes (frames two_arrivals (Simulation [Number 2, Boolean True])) ! 0) \<and>
   fuel (airplanes (frames two_arrivals (Simulation [Number 2, Boolean True])) ! 0) = 19 \<and>
   fuel (airplanes (Simulation_tick (1, 0) (frames two_arrivals (Simulation [Number 2, Boolean True]))) ! 0) = 19 \<and>
   landed (airplanes (frames_single two_arrivals (Simulation [Number 2, Boolean True])) ! 0) \<and>
   \<not> crashed (airplanes (frames_single two_arrivals (Simulation [Number 2, Boolean True])) ! 0) \<and>
   fuel (airplanes (frames_single two_arrivals (Simulation [Number 2, Boolean True])) ! 0) = 19 \<and>
   fuel (airplanes (Simulation_tick_single (1, 0)
     (frames_single two_arrivals (Simulation [Number 2, Boolean True]))) ! 0) = 19"
  by code_simp

subsection \<open>C6\<close>

text \<open>
  C6 (src/unnamed/part_000). \<^verbatim>\<open>prioritizeLandingOtherPlane(lowestAirplane, landingPlane)\<close>
  with the landing airplane at index \<open>k\<close>: it changes nothing when that airplane's fuel is
  below 81 plus its altitude, or when the candidate's fuel is not strictly less than its
  fuel; in every case it changes no field of the simulation but the airplanes, keeps their
  number, changes nothing but landing flags, leaves every airplane other than the two
  untouched, and leaves the altitude of the landing airplane as it was. In a frame, an
  airplane is halted (\<open>halted_single\<close>) when it is landing after its own tick and not
  landing when the frame ends: at most one airplane is halted in a frame, and only in a
  trial that reprioritizes, when its fuel is at least 81 plus its altitude and the best
  candidate has strictly less fuel; its altitude is the one its tick left.
\<close>

theorem C6_preemption_single:
  "(fuel (airplanes s ! k) < 81 + altitude (airplanes s ! k) \<or>
    \<not> js_lt (fuelOf (airplanes s) lowest) (Fin (fuel (airplanes s ! k))) \<longrightarrow>
      prioritizeLandingOtherPlane_single lowest (Elem k) s = s) \<and>
   (prioritizeLandingOtherPlane_single lowest (Elem k) s)\<lparr>airplanes := airplanes s\<rparr> = s \<and>
   length (airplanes (prioritizeLandingOtherPlane_single lowest (Elem k) s)) = length (airplanes s) \<and>
   (\<forall>i < length (airplanes s).
      sameButLanding (airplanes s ! i) (airplanes (prioritizeLandingOtherPlane_single lowest (Elem k) s) ! i)) \<and>
   (\<forall>i. i \<noteq> k \<and> lowest \<noteq> Elem i \<longrightarrow>
      airplanes (prioritizeLandingOtherPlane_single lowest (Elem k) s) ! i = airplanes s ! i) \<and>
   altitude (airplanes (prioritizeLandingOtherPlane_single lowest (Elem k) s) ! k) = altitude (airplanes s ! k) \<and>
   (\<forall>i j. halted_single d s i \<and> halted_single d s j \<longrightarrow> i = j) \<and>
   (\<forall>i. halted_single d s i \<longrightarrow>
      \<not> truthy (control s) \<and>
      81 + altitude (advance (airplanes (generateAirplane d s) ! i))
        \<le> fuel (advance (airplanes (generateAirplane d s) ! i)) \<and>
      altitude (airplanes (Simulation_tick_single d s) ! i) =
        altitude (advance (airplanes (generateAirplane d s) ! i)) \<and>
      (\<exists>j < length (airplanes (generateAirplane d s)).
         lowestAirplane_single (snd (scan_single d s)) = Elem j \<and>
         fuel (advance (airplanes (generateAirplane d s) ! j))
           < fuel (advance (airplanes (generateAirplane d s) ! i))))"
proof -
  let ?P = "prioritizeLandingOtherPlane_single lowest (Elem k) s"
  have 1: "fuel (airplanes s ! k) < 81 + altitude (airplanes s ! k) \<or>
    \<not> js_lt (fuelOf (airplanes s) lowest) (Fin (fuel (airplanes s ! k))) \<longrightarrow> ?P = s"
    by (auto simp: fires_Elem intro: prioritize_single_no_fire)
  have 2: "?P\<lparr>airplanes := airplanes s\<rparr> = s" by (rule prioritize_single_other_fields)
  have 3: "length (airplanes ?P) = length (airplanes s)"
    by (simp add: airplanes_prioritize_single length_setLanding)
  have 4: "sameButLanding (airplanes s ! i) (airplanes ?P ! i)" if "i < length (airplanes s)" for i
  proof -
    have "sameButLanding (airplanes s ! i) (setLanding (Elem k) False (airplanes s) ! i)"
      using that by (rule setLanding_same)
    moreover have "sameButLanding (setLanding (Elem k) False (airplanes s) ! i)
        (setLanding lowest True (setLanding (Elem k) False (airplanes s)) ! i)"
      using that by (intro setLanding_same) (simp add: length_setLanding)
    ultimately have "sameButLanding (airplanes s ! i)
        (setLanding lowest True (setLanding (Elem k) False (airplanes s)) ! i)"
      by (rule sameButLanding_trans)
    then show ?thesis by (simp add: airplanes_prioritize_single sameButLanding_refl del: setLanding.simps)
  qed
  have 5: "airplanes ?P ! i = airplanes s ! i" if "i \<noteq> k \<and> lowest \<noteq> Elem i" for i
    using that by (simp add: airplanes_prioritize_single setLanding_other del: setLanding.simps)
  have 6: "altitude (airplanes ?P ! k) = altitude (airplanes s ! k)"
    by (simp add: airplanes_prioritize_single setLanding_altitude del: setLanding.simps)
  have 7: "i = j" if "halted_single d s i \<and> halted_single d s j" for i j
    using that halted_single_fired[of d s i] halted_single_fired[of d s j] by simp
  have 8: "\<not> truthy (control s) \<and>
      81 + altitude (advance (airplanes (generateAirplane d s) ! i))
        \<le> fuel (advance (airplanes (generateAirplane d s) ! i)) \<and>
      altitude (airplanes (Simulation_tick_single d s) ! i) =
        altitude (advance (airplanes (generateAirplane d s) ! i)) \<and>
      (\<exists>j < length (airplanes (generateAirplane d s)).
         lowestAirplane_single (snd (scan_single d s)) = Elem j \<and>
         fuel (advance (airplanes (generateAirplane d s) ! j))
           < fuel (advance (airplanes (generateAirplane d s) ! i)))" if h: "halted_single d s i" for i
  proof -
    let ?g = "airplanes (generateAirplane d s)"
    have i: "i < length ?g" using h by (simp add: halted_single_def)
    from halted_single_fired[OF h]
    have c: "\<not> truthy (control s)"
      and f: "fires (map advance ?g) (lowestAirplane_single (snd (scan_single d s))) (Elem i)"
      by simp_all
    have a: "altitude (airplanes (Simulation_tick_single d s) ! i) = altitude (advance (?g ! i))"
      using sameButLanding_fields[OF nth_Simulation_tick_single[OF i]] by simp
    from f i have lt: "js_lt (fuelOf (map advance ?g) (lowestAirplane_single (snd (scan_single d s))))
          (Fin (fuel (advance (?g ! i))))"
      and ge: "81 + altitude (advance (?g ! i)) \<le> fuel (advance (?g ! i))"
      by (simp_all add: fires_Elem)
    from scan_single_lowest_ref[of d s] lt
    obtain j where "j < length ?g" "lowestAirplane_single (snd (scan_single d s)) = Elem j"
      by (auto simp: js_lt_PosInfinity)
    then show ?thesis using c a ge lt by auto
  qed
  show ?thesis using 1 2 3 4 5 6 7 8 by blast
qed

text \<open>
  An instance: an airplane enters with 200 liters on frame 1 and is landing; on frame 71
  another enters with 100 liters and the first is halted at altitude 10 with 129 liters.
\<close>

theorem C6_witness:
  "prioritizeLandingOtherPlane_single (Literal (Some PosInfinity)) (Elem 0)
     (frames_single early_arrival (Simulation [Number 1, Boolean False])) =
     frames_single early_arrival (Simulation [Number 1, Boolean False]) \<and>
   halted_single (0, 0) (frames_single early_arrival (Simulation [Number 1, Boolean False])) 0 \<and>
   \<not> truthy (control (frames_single early_arrival (Simulation [Number 1, Boolean False]))) \<and>
   81 + altitude (advance (airplanes (generateAirplane (0, 0)
         (frames_single early_arrival (Simulation [Number 1, Boolean False]))) ! 0))
     \<le> fuel (advance (airplanes (generateAirplane (0, 0)
         (frames_single early_arrival (Simulation [Number 1, Boolean False]))) ! 0)) \<and>
   altitude (airplanes (Simulation_tick_single (0, 0)
       (frames_single early_arrival (Simulation [Number 1, Boolean False]))) ! 0) =
     altitude (advance (airplanes (generateAirplane (0, 0)
         (frames_single early_arrival (Simulation [Number 1, Boolean False]))) ! 0))"
proof -
  let ?S = "frames_single early_arrival (Simulation [Number 1, Boolean False])"
  note c = C6_preemption_single[of ?S 0 "Literal (Some PosInfinity)" "(0, 0)"]
  have n: "\<not> js_lt (fuelOf (airplanes ?S) (Literal (Some PosInfinity))) (Fin (fuel (airplanes ?S ! 0)))"
    by simp
  have h: "halted_single (0, 0) ?S 0" by (rule early_arrival_halted)
  from c n have 1: "prioritizeLandingOtherPlane_single (Literal (Some PosInfinity)) (Elem 0) ?S = ?S"
    by blast
  from c h have 2: "\<not> truthy (control ?S) \<and>
      81 + altitude (advance (airplanes (generateAirplane (0, 0) ?S) ! 0))
        \<le> fuel (advance (airplanes (generateAirplane (0, 0) ?S) ! 0)) \<and>
      altitude (airplanes (Simulation_tick_single (0, 0) ?S) ! 0) =
        altitude (advance (airplanes (generateAirplane (0, 0) ?S) ! 0))"
    by blast
  show ?thesis using 1 2 h by blast
qed

subsection \<open>C7\<close>



subsection \<open>C8\<close>

text \<open>
  C8 (src/airport.js). Take two trials whose control flags agree, with any run numbers,
  and two random sources that agree on the spawn draw of each of the 10000 frames and on
  the fuel draw of each frame that spawns an airplane (the fuel draw of a frame that
  spawns nothing is never made). The two runs end with the same number of crashed
  airplanes, in fact with the same airplanes, at frame number 10000; the simulations
  differ at most in the run number and the control value they were built with; and each
  run adds that one crash count to its tally, whatever the tally held, in the group of
  the control flag.
\<close>

theorem C8_same_draws_same_crash_count:
  "truthy (arg args 1) = truthy (arg args' 1) \<and>
   (\<forall>k < 10000. fst (rnd k) = fst (rnd' k) \<and> (fst (rnd k) = 0 \<longrightarrow> snd (rnd k) = snd (rnd' k))) \<longrightarrow>
     length (filter crashed (airplanes (fst (run rnd (Simulation args) tally)))) =
       length (filter crashed (airplanes (fst (run rnd' (Simulation args') tally')))) \<and>
     airplanes (fst (run rnd (Simulation args) tally)) =
       airplanes (fst (run rnd' (Simulation args') tally')) \<and>
     fst (run rnd (Simulation args) tally) =
       \<lparr>airplanes = airplanes (fst (run rnd (Simulation args) tally)), frameNumber = 10000,
        framerate = 60, runNumber = arg args 0, control = arg args 1\<rparr> \<and>
     fst (run rnd' (Simulation args') tally') =
       \<lparr>airplanes = airplanes (fst (run rnd (Simulation args) tally)), frameNumber = 10000,
        framerate = 60, runNumber = arg args' 0, control = arg args' 1\<rparr> \<and>
     snd (run rnd (Simulation args) tally) =
       (if truthy (arg args 1)
        then tally\<lparr>controls := controls tally +
               length (filter crashed (airplanes (fst (run rnd (Simulation args) tally))))\<rparr>
        else tally\<lparr>tests := tests tally +
               length (filter crashed (airplanes (fst (run rnd (Simulation args) tally))))\<rparr>) \<and>
     snd (run rnd' (Simulation args') tally') =
       (if truthy (arg args 1)
        then tally'\<lparr>controls := controls tally' +
               length (filter crashed (airplanes (fst (run rnd (Simulation args) tally))))\<rparr>
        else tally'\<lparr>tests := tests tally' +
               length (filter crashed (airplanes (fst (run rnd (Simulation args) tally))))\<rparr>)"
  (is "?hyp \<longrightarrow> ?concl")
proof
  assume a: "truthy (arg args 1) = truthy (arg args' 1) \<and>
   (\<forall>k < 10000. fst (rnd k) = fst (rnd' k) \<and> (fst (rnd k) = 0 \<longrightarrow> snd (rnd k) = snd (rnd' k)))"
  have c: "control (Simulation args) = arg args 1" "control (Simulation args') = arg args' 1"
    by (simp_all add: Simulation_def)
  have eq: "airplanes (run_loop rnd (Simulation args)) = airplanes (run_loop rnd' (Simulation args'))"
    using a by (intro run_loop_same[THEN conjunct1]) (simp_all add: Simulation_def)
  have 1: "fst (run rnd (Simulation args) tally) =
       \<lparr>airplanes = airplanes (fst (run rnd (Simulation args) tally)), frameNumber = 10000,
        framerate = 60, runNumber = arg args 0, control = arg args 1\<rparr>"
    unfolding fst_run by (rule run_loop_Simulation)
  have 2: "fst (run rnd' (Simulation args') tally') =
       \<lparr>airplanes = airplanes (fst (run rnd (Simulation args) tally)), frameNumber = 10000,
        framerate = 60, runNumber = arg args' 0, control = arg args' 1\<rparr>"
    unfolding fst_run eq by (rule run_loop_Simulation)
  have 3: "snd (run rnd (Simulation args) tally) =
       (if truthy (arg args 1)
        then tally\<lparr>controls := controls tally +
               length (filter crashed (airplanes (fst (run rnd (Simulation args) tally))))\<rparr>
        else tally\<lparr>tests := tests tally +
               length (filter crashed (airplanes (fst (run rnd (Simulation args) tally))))\<rparr>)"
    unfolding fst_run snd_run c ..
  have 4: "snd (run rnd' (Simulation args') tally') =
       (if truthy (arg args 1)
        then tally'\<lparr>controls := controls tally' +
               length (filter crashed (airplanes (fst (run rnd (Simulation args) tally))))\<rparr>
        else tally'\<lparr>tests := tests tally' +
               length (filter crashed (airplanes (fst (run rnd (Simulation args) tally))))\<rparr>)"
    unfolding fst_run snd_run c eq using a by simp
  have 5: "airplanes (fst (run rnd (Simulation args) tally)) =
       airplanes (fst (run rnd' (Simulation args') tally'))"
    unfolding fst_run by (rule eq)
  have 0: "length (filter crashed (airplanes (fst (run rnd (Simulation args) tally)))) =
       length (filter crashed (airplanes (fst (run rnd' (Simulation args') tally'))))"
    using 5 by (rule arg_cong)
  show "?concl" by (rule conjI[OF 0 conjI[OF 5 conjI[OF 1 conjI[OF 2 conjI[OF 3 4]]]]])
qed

text \<open>
  An instance: the control trials 2 and 4, with sources that spawn one airplane with the
  same fuel on the first frame and differ in the draws that are never made, and tallies
  that differ.
\<close>

theorem C8_witness:
  "length (filter crashed (airplanes (fst (run (\<lambda>k. (if k = 0 then 0 else 1, 5))
       (Simulation [Number 2, Boolean True]) \<lparr>controls = 0, tests = 0\<rparr>)))) =
   length (filter crashed (airplanes (fst (run (\<lambda>k. (if k = 0 then 0 else 1, if k = 0 then 5 else 9))
       (Simulation [Number 4, Boolean True]) \<lparr>controls = 7, tests = 3\<rparr>)))) \<and>
   snd (run (\<lambda>k. (if k = 0 then 0 else 1, if k = 0 then 5 else 9))
       (Simulation [Number 4, Boolean True]) \<lparr>controls = 7, tests = 3\<rparr>) =
     \<lparr>controls = 7 + length (filter crashed (airplanes (fst (run (\<lambda>k. (if k = 0 then 0 else 1, 5))
          (Simulation [Number 2, Boolean True]) \<lparr>controls = 0, tests = 0\<rparr>)))), tests = 3\<rparr>"
proof -
  have h: "truthy (arg [Number 2, Boolean True] 1) = truthy (arg [Number 4, Boolean True] 1) \<and>
    (\<forall>k < 10000.
      fst ((\<lambda>k. (if k = 0 then 0 else 1, 5)) k) = fst ((\<lambda>k. (if k = 0 then 0 else 1, if k = 0 then 5 else 9)) k) \<and>
      (fst ((\<lambda>k. (if k = 0 then 0 else 1, 5)) k) = (0::nat) \<longrightarrow>
       snd ((\<lambda>k. (if k = 0 then 0 else 1, 5)) k) = (snd ((\<lambda>k. (if k = 0 then 0 else 1, if k = 0 then 5 else 9)) k) :: nat)))"
    by (simp add: arg_def)
  have t: "truthy (arg [Number 2, Boolean True] 1)" by (simp add: arg_def)
  note c = C8_same_draws_same_crash_count[of "[Number 2, Boolean True]" "[Number 4, Boolean True]"
      "\<lambda>k. (if k = 0 then 0 else 1, 5)" "\<lambda>k. (if k = 0 then 0 else 1, if k = 0 then 5 else 9)"
      "\<lparr>controls = 0, tests = 0\<rparr>" "\<lparr>controls = 7, tests = 3\<rparr>", THEN mp, OF h]
  from c have 1: "length (filter crashed (airplanes (fst (run (\<lambda>k. (if k = 0 then 0 else 1, 5))
       (Simulation [Number 2, Boolean True]) \<lparr>controls = 0, tests = 0\<rparr>)))) =
   length (filter crashed (airplanes (fst (run (\<lambda>k. (if k = 0 then 0 else 1, if k = 0 then 5 else 9))
       (Simulation [Number 4, Boolean True]) \<lparr>controls = 7, tests = 3\<rparr>))))"
    by (rule conjunct1)
  from c[THEN conjunct2, THEN conjunct2, THEN conjunct2, THEN conjunct2, THEN conjunct2] t
  have 2: "snd (run (\<lambda>k. (if k = 0 then 0 else 1, if k = 0 then 5 else 9))
       (Simulation [Number 4, Boolean True]) \<lparr>controls = 7, tests = 3\<rparr>) =
     \<lparr>controls = 7 + length (filter crashed (airplanes (fst (run (\<lambda>k. (if k = 0 then 0 else 1, 5))
          (Simulation [Number 2, Boolean True]) \<lparr>controls = 0, tests = 0\<rparr>)))), tests = 3\<rparr>"
    by simp
  show ?thesis using 1 2 by (rule conjI)
qed

subsection \<open>C9\<close>

text \<open>
  C9 (both files). In every state a trial reaches, from the constructor through any
  sequence of frames with any draws, every airplane whose landing flag is set has at least
  as much fuel as altitude and is not crashed, and every landed airplane has nonnegative
  fuel; and an airplane whose landing flag is set before a frame is not crashed after it.
\<close>

theorem C9_landing_has_enough_fuel:
  "(\<forall>a \<in> set (airplanes (frames ds (Simulation args))).
      (landing a \<longrightarrow> altitude a \<le> fuel a \<and> \<not> crashed a) \<and> (landed a \<longrightarrow> 0 \<le> fuel a)) \<and>
   (\<forall>a \<in> set (airplanes (frames_single ds (Simulation args))).
      (landing a \<longrightarrow> altitude a \<le> fuel a \<and> \<not> crashed a) \<and> (landed a \<longrightarrow> 0 \<le> fuel a)) \<and>
   (\<forall>i < length (airplanes (frames ds (Simulation args))).
      landing (airplanes (frames ds (Simulation args)) ! i) \<longrightarrow>
      \<not> crashed (airplanes (Simulation_tick d (frames ds (Simulation args))) ! i)) \<and>
   (\<forall>i < length (airplanes (frames_single ds (Simulation args))).
      landing (airplanes (frames_single ds (Simulation args)) ! i) \<longrightarrow>
      \<not> crashed (airplanes (Simulation_tick_single d (frames_single ds (Simulation args))) ! i))"
proof -
  have 1: "(landing a \<longrightarrow> altitude a \<le> fuel a \<and> \<not> crashed a) \<and> (landed a \<longrightarrow> 0 \<le> fuel a)"
    if "a \<in> set (airplanes (frames ds (Simulation args)))" for a
  proof -
    have "plane_ok a" using that reach_ok[of ds args] by (simp add: all_ok_def)
    then show ?thesis by (rule plane_ok_facts)
  qed
  have 2: "(landing a \<longrightarrow> altitude a \<le> fuel a \<and> \<not> crashed a) \<and> (landed a \<longrightarrow> 0 \<le> fuel a)"
    if "a \<in> set (airplanes (frames_single ds (Simulation args)))" for a
  proof -
    have "plane_ok a" using that reach_single_ok[of ds args]
      by (simp add: all_ok_single_def plane_ok_single_def)
    then show ?thesis by (rule plane_ok_facts)
  qed
  have 3: "\<not> crashed (airplanes (Simulation_tick d (frames ds (Simulation args))) ! i)"
    if "i < length (airplanes (frames ds (Simulation args)))"
      and "landing (airplanes (frames ds (Simulation args)) ! i)" for i
  proof -
    have "plane_ok (airplanes (frames ds (Simulation args)) ! i)"
      using reach_ok[of ds args] that by (simp add: all_ok_def)
    then show ?thesis using landing_survives that by blast
  qed
  have 4: "\<not> crashed (airplanes (Simulation_tick_single d (frames_single ds (Simulation args))) ! i)"
    if "i < length (airplanes (frames_single ds (Simulation args)))"
      and "landing (airplanes (frames_single ds (Simulation args)) ! i)" for i
  proof -
    have "plane_ok (airplanes (frames_single ds (Simulation args)) ! i)"
      using reach_single_ok[of ds args] that by (simp add: all_ok_single_def plane_ok_single_def)
    then show ?thesis using landing_survives that by blast
  qed
  show ?thesis using 1 2 3 4 by blast
qed

text \<open>
  An instance: after 82 frames with arrivals on frames 1 and 2, one airplane has landed
  and the other is landing.
\<close>

theorem C9_witness:
  "landing (airplanes (frames two_arrivals (Simulation [Number 2, Boolean True])) ! 1) \<and>
   altitude (airplanes (frames two_arrivals (Simulation [Number 2, Boolean True])) ! 1)
     \<le> fuel (airplanes (frames two_arrivals (Simulation [Number 2, Boolean True])) ! 1) \<and>
   \<not> crashed (airplanes (Simulation_tick (1, 0) (frames two_arrivals (Simulation [Number 2, Boolean True]))) ! 1) \<and>
   landed (airplanes (frames_single two_arrivals (Simulation [Number 2, Boolean True])) ! 0) \<and>
   0 \<le> fuel (airplanes (frames_single two_arrivals (Simulation [Number 2, Boolean True])) ! 0) \<and>
   landing (airplanes (frames_single two_arrivals (Simulation [Number 2, Boolean True])) ! 1) \<and>
   \<not> crashed (airplanes (Simulation_tick_single (1, 0)
       (frames_single two_arrivals (Simulation [Number 2, Boolean True]))) ! 1)"
proof -
  let ?m = "airplanes (frames two_arrivals (Simulation [Number 2, Boolean True]))"
  let ?s = "airplanes (frames_single two_arrivals (Simulation [Number 2, Boolean True]))"
  note c = C9_landing_has_enough_fuel[of two_arrivals "[Number 2, Boolean True]" "(1, 0)"]
  have m: "?m ! 1 \<in> set ?m" "1 < length ?m" "landing (?m ! 1)"
    by (simp_all add: two_arrivals_multi)
  have s: "?s ! 0 \<in> set ?s" "1 < length ?s" "landed (?s ! 0)" "landing (?s ! 1)"
    by (simp_all add: two_arrivals_single)
  from c m s show ?thesis by blast
qed

subsection \<open>C10\<close>

text \<open>
  C10 (both files). \<^verbatim>\<open>generateAirplane\<close> runs before the forEach, so on a frame whose
  draw spawns an airplane the new airplane, last in the array, is ticked on that frame:
  the frame ends with one airplane more, the new one with 1 liter less than it was created
  with, at altitude 80, neither crashed nor landed. It can be admitted on that frame: in
  an empty airport it is. And an airplane created with exactly 100 liters whose landing
  flag is set when its spawn frame ends has landed, without crashing, with 19 liters after
  the next 80 frames, whatever their draws.
\<close>

theorem C10_spawn_frame_costs_one_liter:
  "(fst d = 0 \<longrightarrow>
      length (airplanes (Simulation_tick d s)) = Suc (length (airplanes s)) \<and>
      fuel (airplanes (Simulation_tick d s) ! length (airplanes s)) = int (snd d) + 100 - 1 \<and>
      altitude (airplanes (Simulation_tick d s) ! length (airplanes s)) = 80 \<and>
      \<not> crashed (airplanes (Simulation_tick d s) ! length (airplanes s)) \<and>
      \<not> landed (airplanes (Simulation_tick d s) ! length (airplanes s)) \<and>
      length (airplanes (Simulation_tick_single d s)) = Suc (length (airplanes s)) \<and>
      fuel (airplanes (Simulation_tick_single d s) ! length (airplanes s)) = int (snd d) + 100 - 1 \<and>
      altitude (airplanes (Simulation_tick_single d s) ! length (airplanes s)) = 80 \<and>
      \<not> crashed (airplanes (Simulation_tick_single d s) ! length (airplanes s)) \<and>
      \<not> landed (airplanes (Simulation_tick_single d s) ! length (airplanes s))) \<and>
   airplanes (Simulation_tick (0, r) (Simulation args)) =
     [\<lparr>planeNumber = 1, fuel = int r + 99, fuelRate = 1, crashed = False, altitude = 80,
       landing = True, landed = False\<rparr>] \<and>
   airplanes (Simulation_tick_single (0, r) (Simulation args)) =
     [\<lparr>planeNumber = 1, fuel = int r + 99, fuelRate = 1, crashed = False, altitude = 80,
       landing = True, landed = False\<rparr>] \<and>
   (length es = 80 \<and> landing (airplanes (Simulation_tick (0, 0) s) ! length (airplanes s)) \<longrightarrow>
      landed (airplanes (frames es (Simulation_tick (0, 0) s)) ! length (airplanes s)) \<and>
      \<not> crashed (airplanes (frames es (Simulation_tick (0, 0) s)) ! length (airplanes s)) \<and>
      fuel (airplanes (frames es (Simulation_tick (0, 0) s)) ! length (airplanes s)) = 19) \<and>
   (length es = 80 \<and> landing (airplanes (Simulation_tick_single (0, 0) s) ! length (airplanes s)) \<longrightarrow>
      landed (airplanes (frames_single es (Simulation_tick_single (0, 0) s)) ! length (airplanes s)) \<and>
      \<not> crashed (airplanes (frames_single es (Simulation_tick_single (0, 0) s)) ! length (airplanes s)) \<and>
      fuel (airplanes (frames_single es (Simulation_tick_single (0, 0) s)) ! length (airplanes s)) = 19)"
proof -
  let ?n = "length (airplanes s)"
  have new: "length (airplanes (Simulation_tick e s)) = Suc ?n \<and>
      fuel (airplanes (Simulation_tick e s) ! ?n) = int (snd e) + 100 - 1 \<and>
      altitude (airplanes (Simulation_tick e s) ! ?n) = 80 \<and>
      \<not> crashed (airplanes (Simulation_tick e s) ! ?n) \<and>
      \<not> landed (airplanes (Simulation_tick e s) ! ?n) \<and>
      fuelRate (airplanes (Simulation_tick e s) ! ?n) = 1"
    if e: "fst e = 0" for e
  proof -
    have n: "?n < length (airplanes (generateAirplane e s))" using spawned_plane[OF e, of s] by simp
    show ?thesis
      using spawned_plane[OF e, of s] nth_Simulation_tick[OF n] spawned_fields
      by (simp add: length_Simulation_tick)
  qed
  have new1: "length (airplanes (Simulation_tick_single e s)) = Suc ?n \<and>
      fuel (airplanes (Simulation_tick_single e s) ! ?n) = int (snd e) + 100 - 1 \<and>
      altitude (airplanes (Simulation_tick_single e s) ! ?n) = 80 \<and>
      \<not> crashed (airplanes (Simulation_tick_single e s) ! ?n) \<and>
      \<not> landed (airplanes (Simulation_tick_single e s) ! ?n) \<and>
      fuelRate (airplanes (Simulation_tick_single e s) ! ?n) = 1"
    if e: "fst e = 0" for e
  proof -
    have n: "?n < length (airplanes (generateAirplane e s))" using spawned_plane[OF e, of s] by simp
    show ?thesis
      using spawned_plane[OF e, of s] nth_Simulation_tick_single[OF n] spawned_fields
      by (simp add: length_Simulation_tick_single)
  qed
  have 1: "fst d = 0 \<longrightarrow>
      length (airplanes (Simulation_tick d s)) = Suc ?n \<and>
      fuel (airplanes (Simulation_tick d s) ! ?n) = int (snd d) + 100 - 1 \<and>
      altitude (airplanes (Simulation_tick d s) ! ?n) = 80 \<and>
      \<not> crashed (airplanes (Simulation_tick d s) ! ?n) \<and>
      \<not> landed (airplanes (Simulation_tick d s) ! ?n) \<and>
      length (airplanes (Simulation_tick_single d s)) = Suc ?n \<and>
      fuel (airplanes (Simulation_tick_single d s) ! ?n) = int (snd d) + 100 - 1 \<and>
      altitude (airplanes (Simulation_tick_single d s) ! ?n) = 80 \<and>
      \<not> crashed (airplanes (Simulation_tick_single d s) ! ?n) \<and>
      \<not> landed (airplanes (Simulation_tick_single d s) ! ?n)"
    using new[of d] new1[of d] by blast
  have 4: "landed (airplanes (frames es (Simulation_tick (0, 0) s)) ! ?n) \<and>
      \<not> crashed (airplanes (frames es (Simulation_tick (0, 0) s)) ! ?n) \<and>
      fuel (airplanes (frames es (Simulation_tick (0, 0) s)) ! ?n) = 19"
    if "length es = 80 \<and> landing (airplanes (Simulation_tick (0, 0) s) ! ?n)"
  proof -
    have ne: "es \<noteq> []" using that by auto
    have "landed (airplanes (frames es (Simulation_tick (0, 0) s)) ! ?n) \<and>
      \<not> crashed (airplanes (frames es (Simulation_tick (0, 0) s)) ! ?n) \<and>
      fuel (airplanes (frames es (Simulation_tick (0, 0) s)) ! ?n) =
        fuel (airplanes (Simulation_tick (0, 0) s) ! ?n) - int (length es)"
      using new[of "(0, 0)"] that by (intro landing_completes[OF ne]) simp_all
    then show ?thesis using new[of "(0, 0)"] that by simp
  qed
  have 5: "landed (airplanes (frames_single es (Simulation_tick_single (0, 0) s)) ! ?n) \<and>
      \<not> crashed (airplanes (frames_single es (Simulation_tick_single (0, 0) s)) ! ?n) \<and>
      fuel (airplanes (frames_single es (Simulation_tick_single (0, 0) s)) ! ?n) = 19"
    if "length es = 80 \<and> landing (airplanes (Simulation_tick_single (0, 0) s) ! ?n)"
  proof -
    have ne: "es \<noteq> []" using that by auto
    have "landed (airplanes (frames_single es (Simulation_tick_single (0, 0) s)) ! ?n) \<and>
      \<not> crashed (airplanes (frames_single es (Simulation_tick_single (0, 0) s)) ! ?n) \<and>
      fuel (airplanes (frames_single es (Simulation_tick_single (0, 0) s)) ! ?n) =
        fuel (airplanes (Simulation_tick_single (0, 0) s) ! ?n) - int (length es)"
      using new1[of "(0, 0)"] that by (intro landing_completes_single[OF ne]) simp_all
    then show ?thesis using new1[of "(0, 0)"] that by simp
  qed
  show ?thesis using 1 first_frame[of r args] first_frame_single[of r args] 4 5 by blast
qed

text \<open>
  An instance: the first frame of a trial spawns an airplane with 100 liters.
\<close>

theorem C10_witness:
  "fuel (airplanes (Simulation_tick (0, 0) (Simulation [Number 1, Boolean False])) ! 0) = 99 \<and>
   landing (airplanes (Simulation_tick (0, 0) (Simulation [Number 1, Boolean False])) ! 0) \<and>
   landed (airplanes (frames (replicate 80 (1, 0))
      (Simulation_tick (0, 0) (Simulation [Number 1, Boolean False]))) ! 0) \<and>
   fuel (airplanes (frames (replicate 80 (1, 0))
      (Simulation_tick (0, 0) (Simulation [Number 1, Boolean False]))) ! 0) = 19 \<and>
   fuel (airplanes (Simulation_tick_single (0, 0) (Simulation [Number 1, Boolean False])) ! 0) = 99 \<and>
   landing (airplanes (Simulation_tick_single (0, 0) (Simulation [Number 1, Boolean False])) ! 0) \<and>
   landed (airplanes (frames_single (replicate 80 (1, 0))
      (Simulation_tick_single (0, 0) (Simulation [Number 1, Boolean False]))) ! 0) \<and>
   fuel (airplanes (frames_single (replicate 80 (1, 0))
      (Simulation_tick_single (0, 0) (Simulation [Number 1, Boolean False]))) ! 0) = 19"
proof -
  let ?s = "Simulation [Number 1, Boolean False]"
  note c = C10_spawn_frame_costs_one_liter[of "(0, 0)" ?s 0 "[Number 1, Boolean False]" "replicate 80 (1, 0)"]
  have n: "length (airplanes ?s) = 0" by (simp add: Simulation_def)
  have d: "fst (0::nat, 0::nat) = 0" "int (snd (0::nat, 0::nat)) + 100 - 1 = 99" by simp_all
  have e: "length (replicate 80 (1::nat, 0::nat)) = 80" by simp
  from c d n have 1: "fuel (airplanes (Simulation_tick (0, 0) ?s) ! 0) = 99"
    "fuel (airplanes (Simulation_tick_single (0, 0) ?s) ! 0) = 99" by simp_all
  from c have 2: "landing (airplanes (Simulation_tick (0, 0) ?s) ! 0)"
    "landing (airplanes (Simulation_tick_single (0, 0) ?s) ! 0)" by simp_all
  from c e n 2 have 3: "landed (airplanes (frames (replicate 80 (1, 0)) (Simulation_tick (0, 0) ?s)) ! 0)"
    "fuel (airplanes (frames (replicate 80 (1, 0)) (Simulation_tick (0, 0) ?s)) ! 0) = 19"
    "landed (airplanes (frames_single (replicate 80 (1, 0)) (Simulation_tick_single (0, 0) ?s)) ! 0)"
    "fuel (airplanes (frames_single (replicate 80 (1, 0)) (Simulation_tick_single (0, 0) ?s)) ! 0) = 19"
    by simp_all
  show ?thesis using 1 2 3 by blast
qed

end
